theory Spec2Isabelle
  imports Complex_Main
begin

section \<open>The photo editor's scene item (editor/scene_item_base.cpp)\<close>

text \<open>
  A shallow embedding of \<^verbatim>\<open>Editor::ItemBase\<close>. The numeric type of the source is
  \<^verbatim>\<open>float64\<close> (and Qt's \<^verbatim>\<open>qreal\<close>); it is modelled by \<^typ>\<open>real\<close>, so every statement
  below is about the arithmetic the code writes down, read over the real numbers:
  rounding error, infinities, NaN and signed zeros of IEEE doubles are outside the model.
  C++ \<^verbatim>\<open>int\<close> is modelled by \<^typ>\<open>int\<close>; the file does no integer arithmetic, it only
  compares and converts.
\<close>

subsection \<open>Qt value types: points, rectangles, margins\<close>

record QPointF =
  xp :: real
  yp :: real

text \<open>\<^verbatim>\<open>operator*(QPointF, qreal)\<close> and \<^verbatim>\<open>operator-(QPointF, QPointF)\<close>.\<close>

definition QPointF_times :: "QPointF \<Rightarrow> real \<Rightarrow> QPointF" where
  "QPointF_times p c = \<lparr>xp = xp p * c, yp = yp p * c\<rparr>"

definition QPointF_minus :: "QPointF \<Rightarrow> QPointF \<Rightarrow> QPointF" where
  "QPointF_minus p q = \<lparr>xp = xp p - xp q, yp = yp p - yp q\<rparr>"

text \<open>\<^verbatim>\<open>QRectF(x, y, w, h)\<close>: the top left corner and the size.\<close>

record QRectF =
  rx :: real
  ry :: real
  rw :: real
  rh :: real

definition QRectF_center :: "QRectF \<Rightarrow> QPointF" where
  "QRectF_center r = \<lparr>xp = rx r + rw r / 2, yp = ry r + rh r / 2\<rparr>"

text \<open>
  \<^verbatim>\<open>QRectF::contains(const QPointF &)\<close> as Qt implements it: a negative width or height
  is normalised, a rectangle of width or height zero contains nothing, and the edges
  belong to the rectangle.
\<close>

definition QRectF_contains :: "QRectF \<Rightarrow> QPointF \<Rightarrow> bool" where
  "QRectF_contains r p =
     (let l = (if rw r < 0 then rx r + rw r else rx r);
          r' = (if rw r < 0 then rx r else rx r + rw r)
      in if l = r' then False
         else if xp p < l \<or> r' < xp p then False
         else
           (let t = (if rh r < 0 then ry r + rh r else ry r);
                b = (if rh r < 0 then ry r else ry r + rh r)
            in if t = b then False
               else if yp p < t \<or> b < yp p then False
               else True))"

record QMarginsF =
  m_left :: real
  m_top :: real
  m_right :: real
  m_bottom :: real

definition QMarginsF_times :: "QMarginsF \<Rightarrow> real \<Rightarrow> QMarginsF" where
  "QMarginsF_times m c =
     \<lparr>m_left = m_left m * c, m_top = m_top m * c, m_right = m_right m * c,
      m_bottom = m_bottom m * c\<rparr>"

text \<open>\<^verbatim>\<open>QRectF + QMarginsF\<close> grows the rectangle, \<^verbatim>\<open>QRectF - QMarginsF\<close> shrinks it.\<close>

definition QRectF_plus :: "QRectF \<Rightarrow> QMarginsF \<Rightarrow> QRectF" where
  "QRectF_plus r m =
     \<lparr>rx = rx r - m_left m, ry = ry r - m_top m,
      rw = rw r + m_left m + m_right m, rh = rh r + m_top m + m_bottom m\<rparr>"

definition QRectF_minus :: "QRectF \<Rightarrow> QMarginsF \<Rightarrow> QRectF" where
  "QRectF_minus r m =
     \<lparr>rx = rx r + m_left m, ry = ry r + m_top m,
      rw = rw r - m_left m - m_right m, rh = rh r - m_top m - m_bottom m\<rparr>"

subsection \<open>Numeric helpers of the C++ library\<close>

text \<open>
  The conversion \<^verbatim>\<open>int(v)\<close> of a double truncates toward zero. C++ defines it only
  when the truncated value is representable as an \<^verbatim>\<open>int\<close>; the model truncates every
  real.
\<close>

definition int_cast :: "real \<Rightarrow> int" where
  "int_cast v = (if 0 \<le> v then \<lfloor>v\<rfloor> else \<lceil>v\<rceil>)"

text \<open>\<^verbatim>\<open>std::clamp(v, lo, hi)\<close>, as the standard library computes it.\<close>

definition std_clamp :: "int \<Rightarrow> int \<Rightarrow> int \<Rightarrow> int" where
  "std_clamp v lo hi = (if v < lo then lo else if hi < v then hi else v)"

text \<open>\<^verbatim>\<open>std::round\<close>: to the nearest integer, halfway cases away from zero.\<close>

definition std_round :: "real \<Rightarrow> real" where
  "std_round v = (if 0 \<le> v then of_int \<lfloor>v + 1 / 2\<rfloor> else of_int \<lceil>v - 1 / 2\<rceil>)"

text \<open>
  \<^verbatim>\<open>std::atan2(y, x)\<close>: the angle of the point \<open>(x, y)\<close> in radians, in \<open>(-\<pi>, \<pi>]\<close>, and
  \<open>0\<close> at the origin.
\<close>

definition atan2 :: "real \<Rightarrow> real \<Rightarrow> real" where
  "atan2 y x =
     (if 0 < x then arctan (y / x)
      else if x < 0 then (if 0 \<le> y then arctan (y / x) + pi else arctan (y / x) - pi)
      else if 0 < y then pi / 2
      else if y < 0 then - pi / 2
      else 0)"

subsection \<open>The anonymous namespace\<close>

definition kSnapAngle :: real where
  "kSnapAngle = 45"

definition Normalized :: "real \<Rightarrow> real" where
  "Normalized angle =
     angle + (if \<bar>angle\<bar> < 360 then 0 else (- 360 * (if angle < 0 then - 1 else 1)))"

datatype GlobalColor = Qt_white | Qt_gray

datatype QBrush = NoBrush | SolidBrush GlobalColor | StyleBrush string

datatype PenStyle = NoPen | SolidLine | DashLine | DotLine | DashDotLine | DashDotDotLine

datatype PenCapStyle = FlatCap | SquareCap | RoundCap

datatype PenJoinStyle = MiterJoin | BevelJoin | RoundJoin

record QPen =
  pen_brush :: QBrush
  pen_width :: real
  pen_style :: PenStyle
  pen_cap :: PenCapStyle
  pen_join :: PenJoinStyle

definition PenStyled :: "QPen \<Rightarrow> PenStyle \<Rightarrow> QPen" where
  "PenStyled pen style = pen\<lparr>pen_style := style\<rparr>"

subsection \<open>Events, graphics items and the item's fields\<close>

datatype MouseButton = NoButton | LeftButton | RightButton | MiddleButton

datatype KeyboardModifier = ShiftModifier | ControlModifier | AltModifier | MetaModifier

record QGraphicsSceneMouseEvent =
  event_pos :: QPointF
  event_button :: MouseButton
  event_modifiers :: "KeyboardModifier set"

record QGraphicsSceneHoverEvent =
  hover_pos :: QPointF

record QGraphicsSceneContextMenuEvent =
  event_screenPos :: "int \<times> int"

datatype CursorShape = ArrowCursor | OpenHandCursor | ClosedHandCursor

datatype GraphicsItemFlag = ItemIsMovable | ItemIsSelectable | ItemIsFocusable

text \<open>
  The part of the object that belongs to \<^verbatim>\<open>QGraphicsItem\<close>. \<open>item_scene\<close> is the scene
  the item is attached to (\<^verbatim>\<open>scene()\<close>), \<open>None\<close> for the null pointer.
\<close>

record QGraphicsItem =
  item_pos :: QPointF
  item_rotation :: real
  item_zValue :: real
  item_selected :: bool
  item_cursor :: CursorShape
  item_flags :: "GraphicsItemFlag set"
  item_acceptHoverEvents :: bool
  item_scene :: "nat option"

datatype HandleType = HandleType_None | HandleType_Left | HandleType_Right

text \<open>
  The three callbacks that \<^verbatim>\<open>contextMenuEvent\<close> hands to the popup menu are lambdas
  capturing \<^verbatim>\<open>this\<close>; they are named here and run by \<open>trigger\<close> below.
\<close>

datatype MenuCallback = DeleteCallback | FlipCallback | DuplicateCallback

record PopupMenu =
  menu_actions :: "(string \<times> MenuCallback) list"
  menu_popup :: "(int \<times> int) option"

text \<open>
  The fields of \<^verbatim>\<open>ItemBase\<close> (with \<^verbatim>\<open>_number\<close> of \<^verbatim>\<open>NumberedItem\<close>); \<open>m_x\<close> stands for
  the member \<^verbatim>\<open>_x\<close>. \<open>m_zoom\<close> is the current value of the \<^verbatim>\<open>rpl::variable\<close>. The shared
  counter \<^verbatim>\<open>*_lastZ\<close> is not a field: it is passed to and returned by the operations
  that touch it.
\<close>

record ItemBase =
  base :: QGraphicsItem
  m_number :: int
  m_selectPen :: QPen
  m_selectPenInactive :: QPen
  m_menu :: "PopupMenu option"
  m_scaledHandleSize :: real
  m_scaledInnerMargins :: QMarginsF
  m_horizontalSize :: real
  m_verticalSize :: real
  m_aspectRatio :: real
  m_handle :: HandleType
  m_zoom :: real
  m_flipped :: bool

text \<open>
  What the file uses and does not define. The style constants of
  \<^verbatim>\<open>styles/style_editor.h\<close>; Qt's coordinate mapping of an item; the event handlers of
  the base class \<^verbatim>\<open>QGraphicsItem\<close>, which see only the base part of the object; and
  \<open>fresh\<close>, the object as the default member initialisers of the class declaration
  leave it before a constructor body runs.
\<close>

record Env =
  photoEditorItemHandleSize :: int
  photoEditorItemMinSize :: int
  photoEditorItemMaxSize :: int
  photoEditorItemBaseHandleFg :: QBrush
  mapToScene :: "QGraphicsItem \<Rightarrow> QPointF \<Rightarrow> QPointF"
  scenePos :: "QGraphicsItem \<Rightarrow> QPointF"
  QGraphicsItem_mouseMoveEvent :: "QGraphicsItem \<Rightarrow> QGraphicsSceneMouseEvent \<Rightarrow> QGraphicsItem"
  QGraphicsItem_hoverMoveEvent :: "QGraphicsItem \<Rightarrow> QGraphicsSceneHoverEvent \<Rightarrow> QGraphicsItem"
  QGraphicsItem_mousePressEvent :: "QGraphicsItem \<Rightarrow> QGraphicsSceneMouseEvent \<Rightarrow> QGraphicsItem"
  QGraphicsItem_mouseReleaseEvent :: "QGraphicsItem \<Rightarrow> QGraphicsSceneMouseEvent \<Rightarrow> QGraphicsItem"
  fresh :: ItemBase

subsection \<open>Accessors and setters of \<^verbatim>\<open>QGraphicsItem\<close> that the file calls\<close>

definition isSelected :: "ItemBase \<Rightarrow> bool" where
  "isSelected it = item_selected (base it)"

definition scene :: "ItemBase \<Rightarrow> nat option" where
  "scene it = item_scene (base it)"

definition rotation :: "ItemBase \<Rightarrow> real" where
  "rotation it = item_rotation (base it)"

definition setRotation :: "real \<Rightarrow> ItemBase \<Rightarrow> ItemBase" where
  "setRotation angle it = it\<lparr>base := (base it)\<lparr>item_rotation := angle\<rparr>\<rparr>"

definition setPos :: "real \<Rightarrow> real \<Rightarrow> ItemBase \<Rightarrow> ItemBase" where
  "setPos x y it = it\<lparr>base := (base it)\<lparr>item_pos := \<lparr>xp = x, yp = y\<rparr>\<rparr>\<rparr>"

definition setZValue :: "real \<Rightarrow> ItemBase \<Rightarrow> ItemBase" where
  "setZValue z it = it\<lparr>base := (base it)\<lparr>item_zValue := z\<rparr>\<rparr>"

definition setCursor :: "CursorShape \<Rightarrow> ItemBase \<Rightarrow> ItemBase" where
  "setCursor c it = it\<lparr>base := (base it)\<lparr>item_cursor := c\<rparr>\<rparr>"

definition setFlags :: "GraphicsItemFlag set \<Rightarrow> ItemBase \<Rightarrow> ItemBase" where
  "setFlags fs it = it\<lparr>base := (base it)\<lparr>item_flags := fs\<rparr>\<rparr>"

definition setAcceptHoverEvents :: "bool \<Rightarrow> ItemBase \<Rightarrow> ItemBase" where
  "setAcceptHoverEvents b it = it\<lparr>base := (base it)\<lparr>item_acceptHoverEvents := b\<rparr>\<rparr>"

text \<open>\<^verbatim>\<open>QGraphicsItem::setSelected\<close>: an item that is not selectable is never selected.\<close>

definition setSelected :: "bool \<Rightarrow> ItemBase \<Rightarrow> ItemBase" where
  "setSelected selected it =
     it\<lparr>base := (base it)\<lparr>item_selected :=
       (if ItemIsSelectable \<in> item_flags (base it) then selected else False)\<rparr>\<rparr>"

subsection \<open>\<^verbatim>\<open>NumberedItem\<close>\<close>

definition number :: "ItemBase \<Rightarrow> int" where
  "number it = m_number it"

definition setNumber :: "int \<Rightarrow> ItemBase \<Rightarrow> ItemBase" where
  "setNumber n it = it\<lparr>m_number := n\<rparr>"

subsection \<open>Geometry of the item\<close>

definition innerRect :: "ItemBase \<Rightarrow> QRectF" where
  "innerRect it =
     (let hSize = m_horizontalSize it; vSize = m_verticalSize it
      in \<lparr>rx = - hSize / 2, ry = - vSize / 2, rw = hSize, rh = vSize\<rparr>)"

definition boundingRect :: "ItemBase \<Rightarrow> QRectF" where
  "boundingRect it = QRectF_plus (innerRect it) (m_scaledInnerMargins it)"

definition contentRect :: "ItemBase \<Rightarrow> QRectF" where
  "contentRect it = QRectF_minus (innerRect it) (m_scaledInnerMargins it)"

definition rightHandleRect :: "ItemBase \<Rightarrow> QRectF" where
  "rightHandleRect it =
     \<lparr>rx = (m_horizontalSize it / 2) - (m_scaledHandleSize it / 2),
      ry = 0 - (m_scaledHandleSize it / 2),
      rw = m_scaledHandleSize it,
      rh = m_scaledHandleSize it\<rparr>"

definition leftHandleRect :: "ItemBase \<Rightarrow> QRectF" where
  "leftHandleRect it =
     \<lparr>rx = (- m_horizontalSize it / 2) - (m_scaledHandleSize it / 2),
      ry = 0 - (m_scaledHandleSize it / 2),
      rw = m_scaledHandleSize it,
      rh = m_scaledHandleSize it\<rparr>"

definition isHandling :: "ItemBase \<Rightarrow> bool" where
  "isHandling it = (m_handle it \<noteq> HandleType_None)"

definition size_ItemBase :: "ItemBase \<Rightarrow> real" where
  "size_ItemBase it = m_horizontalSize it"

definition updateVerticalSize :: "ItemBase \<Rightarrow> ItemBase" where
  "updateVerticalSize it = it\<lparr>m_verticalSize := m_horizontalSize it * m_aspectRatio it\<rparr>"

definition setAspectRatio :: "real \<Rightarrow> ItemBase \<Rightarrow> ItemBase" where
  "setAspectRatio aspectRatio it = updateVerticalSize (it\<lparr>m_aspectRatio := aspectRatio\<rparr>)"

definition handleType :: "ItemBase \<Rightarrow> QPointF \<Rightarrow> HandleType" where
  "handleType it pos =
     (if QRectF_contains (rightHandleRect it) pos then HandleType_Right
      else if QRectF_contains (leftHandleRect it) pos then HandleType_Left
      else HandleType_None)"

definition flipped :: "ItemBase \<Rightarrow> bool" where
  "flipped it = m_flipped it"

definition performFlip :: "ItemBase \<Rightarrow> ItemBase" where
  "performFlip it = it"

definition setFlip :: "bool \<Rightarrow> ItemBase \<Rightarrow> ItemBase" where
  "setFlip v it = (if m_flipped it \<noteq> v then (performFlip it)\<lparr>m_flipped := v\<rparr> else it)"

subsection \<open>Construction\<close>

text \<open>
  The subscription to the zoom value, which the constructor starts and which runs once
  at once with the current zoom. (A zoom of \<open>0\<close> gives an infinite handle size in
  doubles and is outside the model.)
\<close>

definition zoom_next :: "Env \<Rightarrow> real \<Rightarrow> ItemBase \<Rightarrow> ItemBase" where
  "zoom_next env zoom it =
     (let s = of_int (photoEditorItemHandleSize env) / zoom
      in it\<lparr>m_zoom := zoom,
            m_scaledHandleSize := s,
            m_scaledInnerMargins :=
              QMarginsF_times \<lparr>m_left = s, m_top = s, m_right = s, m_bottom = s\<rparr> 0.5\<rparr>)"

definition selectPen_init :: QPen where
  "selectPen_init =
     \<lparr>pen_brush = SolidBrush Qt_white, pen_width = 1, pen_style = DashLine,
      pen_cap = SquareCap, pen_join = RoundJoin\<rparr>"

definition selectPenInactive_init :: QPen where
  "selectPenInactive_init =
     \<lparr>pen_brush = SolidBrush Qt_gray, pen_width = 1, pen_style = DashLine,
      pen_cap = SquareCap, pen_join = RoundJoin\<rparr>"

text \<open>
  The constructor \<^verbatim>\<open>ItemBase(zoomValue, zPtr, size, x, y)\<close>: it returns the object and
  the new value of the shared counter \<^verbatim>\<open>*zPtr\<close>.
\<close>

definition ItemBase_ctor :: "Env \<Rightarrow> real \<Rightarrow> real \<Rightarrow> int \<Rightarrow> int \<Rightarrow> int \<Rightarrow> ItemBase \<times> real" where
  "ItemBase_ctor env zoomValue lastZ size' x y =
     (let it0 = (fresh env)\<lparr>m_selectPen := selectPen_init,
                            m_selectPenInactive := selectPenInactive_init,
                            m_horizontalSize := of_int size'\<rparr>;
          it1 = setFlags {ItemIsMovable, ItemIsSelectable, ItemIsFocusable} it0;
          it2 = setAcceptHoverEvents True it1;
          it3 = setPos (of_int x) (of_int y) it2;
          it4 = setZValue lastZ it3
      in (zoom_next env zoomValue it4, lastZ + 1))"

subsection \<open>Painting\<close>

datatype StateFlag = State_Enabled | State_HasFocus | State_Selected | State_MouseOver

record QStyleOptionGraphicsItem =
  option_state :: "StateFlag set"

text \<open>A drawing call, with the pen, the brush and the render quality in force.\<close>

datatype DrawCall =
  DrawRect QRectF QPen QBrush bool
  | DrawEllipse QRectF QPen QBrush bool

record QPainter =
  painter_pen :: QPen
  painter_brush :: QBrush
  painter_hq :: bool
  painter_calls :: "DrawCall list"

definition setPen :: "QPen \<Rightarrow> QPainter \<Rightarrow> QPainter" where
  "setPen pen p = p\<lparr>painter_pen := pen\<rparr>"

definition setBrush :: "QBrush \<Rightarrow> QPainter \<Rightarrow> QPainter" where
  "setBrush b p = p\<lparr>painter_brush := b\<rparr>"

definition drawRect :: "QRectF \<Rightarrow> QPainter \<Rightarrow> QPainter" where
  "drawRect r p =
     p\<lparr>painter_calls :=
       painter_calls p @ [DrawRect r (painter_pen p) (painter_brush p) (painter_hq p)]\<rparr>"

definition drawEllipse :: "QRectF \<Rightarrow> QPainter \<Rightarrow> QPainter" where
  "drawEllipse r p =
     p\<lparr>painter_calls :=
       painter_calls p @ [DrawEllipse r (painter_pen p) (painter_brush p) (painter_hq p)]\<rparr>"

text \<open>
  \<^verbatim>\<open>ItemBase::paint\<close>. \<^verbatim>\<open>PainterHighQualityEnabler\<close> (of the ui library) turns the
  high quality render hints on for its scope and restores them when the scope ends.
\<close>

definition paint :: "Env \<Rightarrow> ItemBase \<Rightarrow> QPainter \<Rightarrow> QStyleOptionGraphicsItem \<Rightarrow> QPainter" where
  "paint env it p option =
     (if State_Selected \<notin> option_state option then p
      else
        (let hq = painter_hq p;
             p1 = p\<lparr>painter_hq := True\<rparr>;
             pen = (if State_HasFocus \<in> option_state option
                    then m_selectPen it else m_selectPenInactive it);
             p2 = setPen pen p1;
             p3 = drawRect (innerRect it) p2;
             p4 = setPen (PenStyled pen SolidLine) p3;
             p5 = setBrush (photoEditorItemBaseHandleFg env) p4;
             p6 = drawEllipse (rightHandleRect it) p5;
             p7 = drawEllipse (leftHandleRect it) p6
         in p7\<lparr>painter_hq := hq\<rparr>))"

subsection \<open>Mouse and hover handlers\<close>

definition mouseMoveEvent :: "Env \<Rightarrow> QGraphicsSceneMouseEvent \<Rightarrow> ItemBase \<Rightarrow> ItemBase" where
  "mouseMoveEvent env event it =
     (if isHandling it then
        (let mousePos = event_pos event;
             shift = (ShiftModifier \<in> event_modifiers event);
             isLeft = (m_handle it = HandleType_Left);
             it1 = (if \<not> shift then
                      (let p = (if isLeft then QPointF_times mousePos (- 1) else mousePos);
                           dx = int_cast (2.0 * xp p);
                           dy = int_cast (2.0 * yp p)
                       in updateVerticalSize
                            (it\<lparr>m_horizontalSize :=
                               of_int (std_clamp (if dx > dy then dx else dy)
                                 (photoEditorItemMinSize env) (photoEditorItemMaxSize env))\<rparr>))
                    else it);
             origin = mapToScene env (base it1) (QRectF_center (boundingRect it1));
             pos = mapToScene env (base it1) mousePos;
             diff = QPointF_minus pos origin;
             angle = Normalized ((if isLeft then 180 else 0)
                       + (atan2 (yp diff) (xp diff) * 180 / pi))
         in setRotation
              (if shift then std_round (angle / kSnapAngle) * kSnapAngle else angle) it1)
      else it\<lparr>base := QGraphicsItem_mouseMoveEvent env (base it) event\<rparr>)"

definition hoverMoveEvent :: "Env \<Rightarrow> QGraphicsSceneHoverEvent \<Rightarrow> ItemBase \<Rightarrow> ItemBase" where
  "hoverMoveEvent env event it =
     (let it1 = setCursor
                  (if isHandling it then ClosedHandCursor
                   else if handleType it (hover_pos event) \<noteq> HandleType_None \<and> isSelected it
                   then OpenHandCursor
                   else ArrowCursor) it
      in it1\<lparr>base := QGraphicsItem_hoverMoveEvent env (base it1) event\<rparr>)"

text \<open>
  \<^verbatim>\<open>mousePressEvent\<close> reads and increments the shared counter \<^verbatim>\<open>*_lastZ\<close>: the
  counter is the second component of the argument and of the result.
\<close>

definition mousePressEvent ::
  "Env \<Rightarrow> QGraphicsSceneMouseEvent \<Rightarrow> ItemBase \<times> real \<Rightarrow> ItemBase \<times> real" where
  "mousePressEvent env event s =
     (let it = fst s; lastZ = snd s;
          it1 = setZValue lastZ it;
          it2 = (if event_button event = LeftButton
                 then it1\<lparr>m_handle := handleType it1 (event_pos event)\<rparr> else it1);
          it3 = (if isHandling it2 then setCursor ClosedHandCursor it2
                 else it2\<lparr>base := QGraphicsItem_mousePressEvent env (base it2) event\<rparr>)
      in (it3, lastZ + 1))"

definition mouseReleaseEvent :: "Env \<Rightarrow> QGraphicsSceneMouseEvent \<Rightarrow> ItemBase \<Rightarrow> ItemBase" where
  "mouseReleaseEvent env event it =
     (if event_button event = LeftButton \<and> isHandling it
      then it\<lparr>m_handle := HandleType_None\<rparr>
      else it\<lparr>base := QGraphicsItem_mouseReleaseEvent env (base it) event\<rparr>)"

subsection \<open>Sequences of mouse events delivered to one item\<close>

datatype ItemEvent =
  MouseMove QGraphicsSceneMouseEvent
  | HoverMove QGraphicsSceneHoverEvent
  | MousePress QGraphicsSceneMouseEvent
  | MouseRelease QGraphicsSceneMouseEvent

fun deliver :: "Env \<Rightarrow> ItemEvent \<Rightarrow> ItemBase \<times> real \<Rightarrow> ItemBase \<times> real" where
  "deliver env (MouseMove ev) s = (mouseMoveEvent env ev (fst s), snd s)"
| "deliver env (HoverMove ev) s = (hoverMoveEvent env ev (fst s), snd s)"
| "deliver env (MousePress ev) s = mousePressEvent env ev s"
| "deliver env (MouseRelease ev) s = (mouseReleaseEvent env ev (fst s), snd s)"

fun run :: "Env \<Rightarrow> ItemBase \<times> real \<Rightarrow> ItemEvent list \<Rightarrow> ItemBase \<times> real" where
  "run env s [] = s"
| "run env s (e # es) = run env (deliver env e s) es"

text \<open>
  The description of \<open>isHandling\<close> over a sequence of events, in the words of the
  specification: it becomes true at a left-button press that hits a handle and stays
  true until the next left-button release. \<open>b\<close> is the value before the event, \<open>it\<close>
  the item the event is delivered to.
\<close>

fun between_press_and_release_step :: "ItemBase \<Rightarrow> ItemEvent \<Rightarrow> bool \<Rightarrow> bool" where
  "between_press_and_release_step it (MousePress ev) b =
     (if event_button ev = LeftButton \<and> handleType it (event_pos ev) \<noteq> HandleType_None
      then True else b)"
| "between_press_and_release_step it (MouseRelease ev) b =
     (if event_button ev = LeftButton then False else b)"
| "between_press_and_release_step it (MouseMove ev) b = b"
| "between_press_and_release_step it (HoverMove ev) b = b"

fun between_press_and_release :: "Env \<Rightarrow> bool \<Rightarrow> ItemBase \<times> real \<Rightarrow> ItemEvent list \<Rightarrow> bool" where
  "between_press_and_release env b s [] = b"
| "between_press_and_release env b s (e # es) =
     between_press_and_release env (between_press_and_release_step (fst s) e b)
       (deliver env e s) es"

text \<open>
  The same description with one change: every left-button press decides anew, so a
  left-button press that misses both handles ends the handling as a release does.
\<close>

fun latest_press_step :: "ItemBase \<Rightarrow> ItemEvent \<Rightarrow> bool \<Rightarrow> bool" where
  "latest_press_step it (MousePress ev) b =
     (if event_button ev = LeftButton
      then handleType it (event_pos ev) \<noteq> HandleType_None else b)"
| "latest_press_step it (MouseRelease ev) b =
     (if event_button ev = LeftButton then False else b)"
| "latest_press_step it (MouseMove ev) b = b"
| "latest_press_step it (HoverMove ev) b = b"

fun latest_press :: "Env \<Rightarrow> bool \<Rightarrow> ItemBase \<times> real \<Rightarrow> ItemEvent list \<Rightarrow> bool" where
  "latest_press env b s [] = b"
| "latest_press env b s (e # es) =
     latest_press env (latest_press_step (fst s) e b) (deliver env e s) es"

subsection \<open>The scene and the context menu\<close>

text \<open>
  The item objects alive, each known by its index (the \<^verbatim>\<open>this\<close> pointer), and the
  counter \<^verbatim>\<open>*_lastZ\<close> that the items share. An item belongs to the scene \<open>s\<close> when its
  \<open>item_scene\<close> is \<open>Some s\<close>.
\<close>

record World =
  items :: "ItemBase list"
  lastZ :: real

definition update_item :: "nat \<Rightarrow> (ItemBase \<Rightarrow> ItemBase) \<Rightarrow> World \<Rightarrow> World" where
  "update_item this f w = w\<lparr>items := (items w)[this := f (items w ! this)]\<rparr>"

text \<open>\<^verbatim>\<open>QGraphicsScene::clearSelection\<close>: no item of the scene stays selected.\<close>

definition clearSelection :: "nat \<Rightarrow> World \<Rightarrow> World" where
  "clearSelection s w =
     w\<lparr>items := map (\<lambda>it. if scene it = Some s then setSelected False it else it) (items w)\<rparr>"

text \<open>
  Modelled from the spec: \<^verbatim>\<open>Editor::Scene::removeItem\<close> is defined in
  editor/scene.cpp, which is not among the sources. "delete (removes the item from the
  scene)": the item is detached from its scene.
\<close>

definition Scene_removeItem :: "nat \<Rightarrow> nat \<Rightarrow> World \<Rightarrow> World" where
  "Scene_removeItem s this w =
     update_item this (\<lambda>it. it\<lparr>base := (base it)\<lparr>item_scene := None\<rparr>\<rparr>) w"

text \<open>
  Modelled from the spec: \<^verbatim>\<open>Editor::Scene::addItem\<close> is defined in editor/scene.cpp,
  which is not among the sources. "The newly created item ... becomes the only selected
  item": the new object joins the items alive, attached to the scene.
\<close>

definition Scene_addItem :: "nat \<Rightarrow> ItemBase \<Rightarrow> World \<Rightarrow> World" where
  "Scene_addItem s newItem w =
     w\<lparr>items := items w @ [newItem\<lparr>base := (base newItem)\<lparr>item_scene := Some s\<rparr>\<rparr>]\<rparr>"

text \<open>
  Modelled from the spec: \<^verbatim>\<open>duplicate\<close> is pure virtual in \<^verbatim>\<open>ItemBase\<close> and its
  overrides are not among the sources. "The newly created item": the override builds
  the new object through the constructor \<^verbatim>\<open>ItemBase(zoomValue, zPtr, size, x, y)\<close> above,
  with the arguments it is given; size, x and y are of type \<^verbatim>\<open>int\<close> there.
\<close>

definition duplicate :: "Env \<Rightarrow> real \<Rightarrow> real \<Rightarrow> int \<Rightarrow> int \<Rightarrow> int \<Rightarrow> ItemBase \<times> real" where
  "duplicate env zoomValue zPtr size' x y = ItemBase_ctor env zoomValue zPtr size' x y"

text \<open>The bodies of the three lambdas, run for the item \<open>this\<close>.\<close>

definition delete_action :: "nat \<Rightarrow> World \<Rightarrow> World" where
  "delete_action this w =
     (case scene (items w ! this) of
        None \<Rightarrow> w
      | Some s \<Rightarrow> Scene_removeItem s this w)"

definition flip_action :: "nat \<Rightarrow> World \<Rightarrow> World" where
  "flip_action this w = update_item this (\<lambda>it. setFlip (\<not> flipped it) it) w"

definition duplicate_action :: "Env \<Rightarrow> nat \<Rightarrow> World \<Rightarrow> World" where
  "duplicate_action env this w =
     (let it = items w ! this
      in case scene it of
           None \<Rightarrow> w
         | Some s \<Rightarrow>
             (let made = duplicate env (m_zoom it) (lastZ w)
                           (int_cast (m_horizontalSize it))
                           (int_cast (xp (scenePos env (base it)) + m_horizontalSize it / 3))
                           (int_cast (yp (scenePos env (base it)) + m_verticalSize it / 3));
                  w1 = w\<lparr>lastZ := snd made\<rparr>;
                  newItem1 = setFlip (flipped it) (fst made);
                  newItem2 = setRotation (rotation it) newItem1;
                  w2 = clearSelection s w1;
                  newItem3 = setSelected True newItem2
              in Scene_addItem s newItem3 w2))"

fun trigger :: "Env \<Rightarrow> nat \<Rightarrow> MenuCallback \<Rightarrow> World \<Rightarrow> World" where
  "trigger env this DeleteCallback w = delete_action this w"
| "trigger env this FlipCallback w = flip_action this w"
| "trigger env this DuplicateCallback w = duplicate_action env this w"

definition contextMenuEvent :: "Env \<Rightarrow> nat \<Rightarrow> QGraphicsSceneContextMenuEvent \<Rightarrow> World \<Rightarrow> World" where
  "contextMenuEvent env this event w =
     (let it = items w ! this;
          w1 = (case scene it of
                  None \<Rightarrow> w
                | Some s \<Rightarrow>
                    if \<not> isSelected it
                    then update_item this (setSelected True) (clearSelection s w)
                    else w);
          menu0 = \<lparr>menu_actions = [], menu_popup = None\<rparr>;
          menu1 = menu0\<lparr>menu_actions :=
                    menu_actions menu0 @ [(''lng_photo_editor_menu_delete'', DeleteCallback)]\<rparr>;
          menu2 = menu1\<lparr>menu_actions :=
                    menu_actions menu1 @ [(''lng_photo_editor_menu_flip'', FlipCallback)]\<rparr>;
          menu3 = menu2\<lparr>menu_actions :=
                    menu_actions menu2 @ [(''lng_photo_editor_menu_duplicate'', DuplicateCallback)]\<rparr>;
          menu4 = menu3\<lparr>menu_popup := Some (event_screenPos event)\<rparr>
      in update_item this (\<lambda>it. it\<lparr>m_menu := Some menu4\<rparr>) w1)"

subsection \<open>Readings of an item used in the statements\<close>

text \<open>The three sizes of an item.\<close>

definition sizes :: "ItemBase \<Rightarrow> real \<times> real \<times> real" where
  "sizes it = (m_horizontalSize it, m_verticalSize it, m_aspectRatio it)"

text \<open>The two pens, which the constructor sets and nothing changes.\<close>

definition pens :: "ItemBase \<Rightarrow> QPen \<times> QPen" where
  "pens it = (m_selectPen it, m_selectPenInactive it)"

subsection \<open>A concrete environment and a concrete item\<close>

text \<open>
  Used to evaluate the operations: an environment whose items are not rotated and have
  no parent, whose base class handlers do nothing, and an item of size 100 at (10, 10)
  at zoom 1.
\<close>

definition example_fresh :: ItemBase where
  "example_fresh =
     \<lparr>base = \<lparr>item_pos = \<lparr>xp = 0, yp = 0\<rparr>, item_rotation = 0, item_zValue = 0,
              item_selected = False, item_cursor = ArrowCursor, item_flags = {},
              item_acceptHoverEvents = False, item_scene = None\<rparr>,
      m_number = 0,
      m_selectPen = selectPen_init,
      m_selectPenInactive = selectPenInactive_init,
      m_menu = None,
      m_scaledHandleSize = 1,
      m_scaledInnerMargins = \<lparr>m_left = 0, m_top = 0, m_right = 0, m_bottom = 0\<rparr>,
      m_horizontalSize = 0,
      m_verticalSize = 0,
      m_aspectRatio = 1,
      m_handle = HandleType_None,
      m_zoom = 1,
      m_flipped = False\<rparr>"

definition example_env :: Env where
  "example_env =
     \<lparr>photoEditorItemHandleSize = 20,
      photoEditorItemMinSize = 16,
      photoEditorItemMaxSize = 512,
      photoEditorItemBaseHandleFg = StyleBrush ''photoEditorItemBaseHandleFg'',
      mapToScene = (\<lambda>q p. \<lparr>xp = xp (item_pos q) + xp p, yp = yp (item_pos q) + yp p\<rparr>),
      scenePos = item_pos,
      QGraphicsItem_mouseMoveEvent = (\<lambda>q e. q),
      QGraphicsItem_hoverMoveEvent = (\<lambda>q e. q),
      QGraphicsItem_mousePressEvent = (\<lambda>q e. q),
      QGraphicsItem_mouseReleaseEvent = (\<lambda>q e. q),
      fresh = example_fresh\<rparr>"

definition example_item :: ItemBase where
  "example_item = setAspectRatio 1 (fst (ItemBase_ctor example_env 1 0 100 10 10))"

definition example_world :: World where
  "example_world = Scene_addItem 0 example_item \<lparr>items = [], lastZ = 1\<rparr>"

section \<open>Properties\<close>

subsection \<open>Rounding and clamping\<close>

lemma std_round_near: "\<bar>std_round v - v\<bar> \<le> 1 / 2"
proof (cases "0 \<le> v")
  case True
  then have "std_round v = of_int \<lfloor>v + 1 / 2\<rfloor>" by (simp add: std_round_def)
  then show ?thesis by linarith
next
  case False
  then have "std_round v = of_int \<lceil>v - 1 / 2\<rceil>" by (simp add: std_round_def)
  then show ?thesis by linarith
qed

lemma std_round_int: "\<exists>k::int. std_round v = of_int k"
  by (auto simp: std_round_def)

lemma int_far:
  assumes "(k::int) \<noteq> r" and "\<bar>of_int r - (v::real)\<bar> \<le> 1 / 2"
  shows "1 / 2 \<le> \<bar>of_int k - v\<bar>"
proof -
  from assms(1) have "k \<le> r - 1 \<or> r + 1 \<le> k" by linarith
  then have "(of_int k :: real) \<le> of_int r - 1 \<or> (of_int r :: real) + 1 \<le> of_int k"
    by (metis of_int_le_iff of_int_diff of_int_add of_int_1)
  with assms(2) show ?thesis by linarith
qed

lemma snap_nearest: "\<bar>std_round (a / 45) * 45 - a\<bar> \<le> \<bar>of_int k * 45 - a\<bar>"
proof -
  obtain r :: int where r: "std_round (a / 45) = of_int r"
    using std_round_int by blast
  have near: "\<bar>of_int r - a / 45\<bar> \<le> 1 / 2"
    using std_round_near [of "a / 45"] r by simp
  have "\<bar>of_int r - a / 45\<bar> \<le> \<bar>of_int k - a / 45\<bar>"
  proof (cases "k = r")
    case True then show ?thesis by simp
  next
    case False
    from int_far [OF False near] near show ?thesis by linarith
  qed
  then have "45 * \<bar>of_int r - a / 45\<bar> \<le> 45 * \<bar>of_int k - a / 45\<bar>" by simp
  moreover have "45 * \<bar>of_int r - a / 45\<bar> = \<bar>of_int r * 45 - a\<bar>" by (simp add: abs_if field_simps)
  moreover have "45 * \<bar>of_int k - a / 45\<bar> = \<bar>of_int k * 45 - a\<bar>" by (simp add: abs_if field_simps)
  ultimately show ?thesis using r by simp
qed

lemma std_clamp_max_min: "lo \<le> hi \<Longrightarrow> std_clamp v lo hi = max lo (min hi v)"
  by (simp add: std_clamp_def max_def min_def)


subsection \<open>Evaluating the example\<close>

lemma example_item_eq:
  "example_item =
     \<lparr>base = \<lparr>item_pos = \<lparr>xp = 10, yp = 10\<rparr>, item_rotation = 0, item_zValue = 0,
              item_selected = False, item_cursor = ArrowCursor,
              item_flags = {ItemIsMovable, ItemIsSelectable, ItemIsFocusable},
              item_acceptHoverEvents = True, item_scene = None\<rparr>,
      m_number = 0,
      m_selectPen = selectPen_init,
      m_selectPenInactive = selectPenInactive_init,
      m_menu = None,
      m_scaledHandleSize = 20,
      m_scaledInnerMargins = \<lparr>m_left = 10, m_top = 10, m_right = 10, m_bottom = 10\<rparr>,
      m_horizontalSize = 100,
      m_verticalSize = 100,
      m_aspectRatio = 1,
      m_handle = HandleType_None,
      m_zoom = 1,
      m_flipped = False\<rparr>"
  by (simp add: example_item_def ItemBase_ctor_def example_env_def example_fresh_def
      setAspectRatio_def updateVerticalSize_def zoom_next_def setZValue_def setPos_def
      setAcceptHoverEvents_def setFlags_def QMarginsF_times_def Let_def)

lemma example_world_eq:
  "example_world = \<lparr>items = [example_item\<lparr>base := (base example_item)\<lparr>item_scene := Some 0\<rparr>\<rparr>],
                     lastZ = 1\<rparr>"
  by (simp add: example_world_def Scene_addItem_def)

lemmas example_eval =
  example_item_eq example_env_def rightHandleRect_def leftHandleRect_def QRectF_contains_def
  handleType_def Let_def isHandling_def

subsection \<open>Normalized\<close>

text \<open>
  C10. \<open>Normalized\<close> is the identity on every angle strictly between \<open>-360\<close> and \<open>360\<close>;
  for every angle \<open>a\<close> with \<open>360 \<le> |a| < 720\<close> it returns \<open>a - 360 * sign a\<close>; so for
  every \<open>|a| < 720\<close> the result lies in the open interval \<open>(-360, 360)\<close>, and
  \<open>Normalized 360 = 0\<close> and \<open>Normalized (-360) = 0\<close>.
\<close>

theorem Normalized_spec:
  "(\<bar>a\<bar> < 360 \<longrightarrow> Normalized a = a) \<and>
   (360 \<le> \<bar>a\<bar> \<and> \<bar>a\<bar> < 720 \<longrightarrow> Normalized a = a - 360 * sgn a) \<and>
   (\<bar>a\<bar> < 720 \<longrightarrow> - 360 < Normalized a \<and> Normalized a < 360) \<and>
   Normalized 360 = 0 \<and> Normalized (- 360) = 0"
  by (simp add: Normalized_def sgn_real_def)

theorem Normalized_spec_witness:
  "\<bar>100::real\<bar> < 360 \<and> Normalized 100 = 100 \<and>
   360 \<le> \<bar>- 400::real\<bar> \<and> \<bar>- 400::real\<bar> < 720 \<and> Normalized (- 400) = - 40 \<and>
   - 360 < Normalized 719 \<and> Normalized 719 < 360"
  using Normalized_spec [of 100] Normalized_spec [of "- 400"] Normalized_spec [of 719]
  by simp

subsection \<open>Hit-testing the handles\<close>

lemma contains_square:
  "QRectF_contains \<lparr>rx = c - s / 2, ry = 0 - s / 2, rw = s, rh = s\<rparr> pos \<longleftrightarrow>
     s \<noteq> 0 \<and> \<bar>xp pos - c\<bar> \<le> \<bar>s\<bar> / 2 \<and> \<bar>yp pos\<bar> \<le> \<bar>s\<bar> / 2"
  unfolding QRectF_contains_def Let_def
  by (cases "s < 0") (auto simp: abs_if field_simps)

text \<open>
  C3. \<open>handleType\<close> returns Right exactly when the point lies inside the right handle
  rectangle, otherwise Left exactly when it lies inside the left handle rectangle,
  otherwise None; the right handle wins where both rectangles hold the point. Each
  handle rectangle is a square of side \<open>_scaledHandleSize\<close> whose centre is at
  \<open>y = 0\<close> and \<open>x = _horizontalSize / 2\<close> (right) or \<open>x = - _horizontalSize / 2\<close> (left): a point lies inside it when the side is
  not zero and both its coordinates are within half a side of the centre.
\<close>

theorem handleType_spec:
  "(handleType it pos = HandleType_Right \<longleftrightarrow> QRectF_contains (rightHandleRect it) pos) \<and>
   (handleType it pos = HandleType_Left \<longleftrightarrow>
      \<not> QRectF_contains (rightHandleRect it) pos \<and> QRectF_contains (leftHandleRect it) pos) \<and>
   (handleType it pos = HandleType_None \<longleftrightarrow>
      \<not> QRectF_contains (rightHandleRect it) pos \<and> \<not> QRectF_contains (leftHandleRect it) pos) \<and>
   (QRectF_contains (rightHandleRect it) pos \<and> QRectF_contains (leftHandleRect it) pos
      \<longrightarrow> handleType it pos = HandleType_Right) \<and>
   rw (rightHandleRect it) = m_scaledHandleSize it \<and>
   rh (rightHandleRect it) = m_scaledHandleSize it \<and>
   rw (leftHandleRect it) = m_scaledHandleSize it \<and>
   rh (leftHandleRect it) = m_scaledHandleSize it \<and>
   QRectF_center (rightHandleRect it) = \<lparr>xp = m_horizontalSize it / 2, yp = 0\<rparr> \<and>
   QRectF_center (leftHandleRect it) = \<lparr>xp = - m_horizontalSize it / 2, yp = 0\<rparr> \<and>
   (QRectF_contains (rightHandleRect it) pos \<longleftrightarrow>
      m_scaledHandleSize it \<noteq> 0 \<and>
      \<bar>xp pos - m_horizontalSize it / 2\<bar> \<le> \<bar>m_scaledHandleSize it\<bar> / 2 \<and>
      \<bar>yp pos\<bar> \<le> \<bar>m_scaledHandleSize it\<bar> / 2) \<and>
   (QRectF_contains (leftHandleRect it) pos \<longleftrightarrow>
      m_scaledHandleSize it \<noteq> 0 \<and>
      \<bar>xp pos - (- m_horizontalSize it / 2)\<bar> \<le> \<bar>m_scaledHandleSize it\<bar> / 2 \<and>
      \<bar>yp pos\<bar> \<le> \<bar>m_scaledHandleSize it\<bar> / 2)"
proof -
  have r: "QRectF_contains (rightHandleRect it) pos \<longleftrightarrow>
      m_scaledHandleSize it \<noteq> 0 \<and>
      \<bar>xp pos - m_horizontalSize it / 2\<bar> \<le> \<bar>m_scaledHandleSize it\<bar> / 2 \<and>
      \<bar>yp pos\<bar> \<le> \<bar>m_scaledHandleSize it\<bar> / 2"
    unfolding rightHandleRect_def by (rule contains_square)
  have l: "QRectF_contains (leftHandleRect it) pos \<longleftrightarrow>
      m_scaledHandleSize it \<noteq> 0 \<and>
      \<bar>xp pos - (- m_horizontalSize it / 2)\<bar> \<le> \<bar>m_scaledHandleSize it\<bar> / 2 \<and>
      \<bar>yp pos\<bar> \<le> \<bar>m_scaledHandleSize it\<bar> / 2"
    unfolding leftHandleRect_def by (rule contains_square)
  have h: "(handleType it pos = HandleType_Right \<longleftrightarrow> QRectF_contains (rightHandleRect it) pos) \<and>
   (handleType it pos = HandleType_Left \<longleftrightarrow>
      \<not> QRectF_contains (rightHandleRect it) pos \<and> QRectF_contains (leftHandleRect it) pos) \<and>
   (handleType it pos = HandleType_None \<longleftrightarrow>
      \<not> QRectF_contains (rightHandleRect it) pos \<and> \<not> QRectF_contains (leftHandleRect it) pos) \<and>
   (QRectF_contains (rightHandleRect it) pos \<and> QRectF_contains (leftHandleRect it) pos
      \<longrightarrow> handleType it pos = HandleType_Right)"
    by (simp add: handleType_def)
  have g: "rw (rightHandleRect it) = m_scaledHandleSize it \<and>
   rh (rightHandleRect it) = m_scaledHandleSize it \<and>
   rw (leftHandleRect it) = m_scaledHandleSize it \<and>
   rh (leftHandleRect it) = m_scaledHandleSize it \<and>
   QRectF_center (rightHandleRect it) = \<lparr>xp = m_horizontalSize it / 2, yp = 0\<rparr> \<and>
   QRectF_center (leftHandleRect it) = \<lparr>xp = - m_horizontalSize it / 2, yp = 0\<rparr>"
    by (simp add: rightHandleRect_def leftHandleRect_def QRectF_center_def)
  from h g r l show ?thesis by blast
qed

theorem handleType_spec_witness:
  "QRectF_contains (rightHandleRect (example_item\<lparr>m_horizontalSize := 0\<rparr>)) \<lparr>xp = 0, yp = 0\<rparr> \<and>
   QRectF_contains (leftHandleRect (example_item\<lparr>m_horizontalSize := 0\<rparr>)) \<lparr>xp = 0, yp = 0\<rparr> \<and>
   handleType (example_item\<lparr>m_horizontalSize := 0\<rparr>) \<lparr>xp = 0, yp = 0\<rparr> = HandleType_Right \<and>
   handleType example_item \<lparr>xp = 55, yp = - 10\<rparr> = HandleType_Right \<and>
   handleType example_item \<lparr>xp = - 45, yp = 3\<rparr> = HandleType_Left \<and>
   handleType example_item \<lparr>xp = 0, yp = 0\<rparr> = HandleType_None"
proof -
  have c: "QRectF_contains (rightHandleRect (example_item\<lparr>m_horizontalSize := 0\<rparr>)) \<lparr>xp = 0, yp = 0\<rparr> \<and>
   QRectF_contains (leftHandleRect (example_item\<lparr>m_horizontalSize := 0\<rparr>)) \<lparr>xp = 0, yp = 0\<rparr>"
    by (simp add: example_eval)
  have r: "QRectF_contains (rightHandleRect example_item) \<lparr>xp = 55, yp = - 10\<rparr>"
    by (simp add: example_eval)
  have l: "\<not> QRectF_contains (rightHandleRect example_item) \<lparr>xp = - 45, yp = 3\<rparr> \<and>
           QRectF_contains (leftHandleRect example_item) \<lparr>xp = - 45, yp = 3\<rparr>"
    by (simp add: example_eval)
  have n: "\<not> QRectF_contains (rightHandleRect example_item) \<lparr>xp = 0, yp = 0\<rparr> \<and>
           \<not> QRectF_contains (leftHandleRect example_item) \<lparr>xp = 0, yp = 0\<rparr>"
    by (simp add: example_eval)
  show ?thesis
    using c r l n
      handleType_spec [of "example_item\<lparr>m_horizontalSize := 0\<rparr>" "\<lparr>xp = 0, yp = 0\<rparr>"]
      handleType_spec [of example_item "\<lparr>xp = 55, yp = - 10\<rparr>"]
      handleType_spec [of example_item "\<lparr>xp = - 45, yp = 3\<rparr>"]
      handleType_spec [of example_item "\<lparr>xp = 0, yp = 0\<rparr>"]
    by blast
qed

subsection \<open>Dragging a handle\<close>

text \<open>
  C1. A handle drag with Shift held sets the rotation to \<open>round (angle / 45) * 45\<close>,
  where \<open>angle\<close> is the normalised angle, in degrees, from the scene position of the
  centre of the bounding rectangle to the scene position of the pointer, offset by 180
  when the left handle is active. That rotation is a multiple of 45 and no multiple of
  45 is nearer to \<open>angle\<close>.
\<close>

theorem mouseMoveEvent_snap:
  fixes env :: Env and event :: QGraphicsSceneMouseEvent and it :: ItemBase
  assumes "isHandling it" and "ShiftModifier \<in> event_modifiers event"
  defines "origin \<equiv> mapToScene env (base it) (QRectF_center (boundingRect it))"
  defines "pos \<equiv> mapToScene env (base it) (event_pos event)"
  defines "angle \<equiv> Normalized ((if m_handle it = HandleType_Left then 180 else 0)
                      + atan2 (yp pos - yp origin) (xp pos - xp origin) * 180 / pi)"
  shows "rotation (mouseMoveEvent env event it) = std_round (angle / 45) * 45 \<and>
         (\<exists>k::int. rotation (mouseMoveEvent env event it) = of_int k * 45) \<and>
         (\<forall>k::int. \<bar>rotation (mouseMoveEvent env event it) - angle\<bar> \<le> \<bar>of_int k * 45 - angle\<bar>)"
proof -
  have rot: "rotation (mouseMoveEvent env event it) = std_round (angle / 45) * 45"
    using assms(1,2)
    by (simp add: mouseMoveEvent_def Let_def rotation_def setRotation_def kSnapAngle_def
        QPointF_minus_def angle_def pos_def origin_def)
  obtain r :: int where "std_round (angle / 45) = of_int r"
    using std_round_int by blast
  with rot have "\<exists>k::int. rotation (mouseMoveEvent env event it) = of_int k * 45"
    by auto
  moreover have "\<forall>k::int. \<bar>rotation (mouseMoveEvent env event it) - angle\<bar> \<le> \<bar>of_int k * 45 - angle\<bar>"
    unfolding rot using snap_nearest by blast
  ultimately show ?thesis using rot by blast
qed

theorem mouseMoveEvent_snap_witness:
  "isHandling (example_item\<lparr>m_handle := HandleType_Right\<rparr>) \<and>
   ShiftModifier \<in> event_modifiers
     \<lparr>event_pos = \<lparr>xp = 50, yp = 50\<rparr>, event_button = LeftButton, event_modifiers = {ShiftModifier}\<rparr> \<and>
   rotation (mouseMoveEvent example_env
     \<lparr>event_pos = \<lparr>xp = 50, yp = 50\<rparr>, event_button = LeftButton, event_modifiers = {ShiftModifier}\<rparr>
     (example_item\<lparr>m_handle := HandleType_Right\<rparr>)) = 45"
proof -
  have h1: "isHandling (example_item\<lparr>m_handle := HandleType_Right\<rparr>)"
    by (simp add: isHandling_def)
  have h2: "ShiftModifier \<in> event_modifiers
     \<lparr>event_pos = \<lparr>xp = 50, yp = 50\<rparr>, event_button = LeftButton, event_modifiers = {ShiftModifier}\<rparr>"
    by simp
  show ?thesis
    using h1 h2 mouseMoveEvent_snap [OF h1 h2, of example_env]
    by (simp add: example_item_eq example_env_def boundingRect_def innerRect_def QRectF_plus_def
        QRectF_center_def atan2_def arctan_one Normalized_def std_round_def)
qed

lemma resize_horizontal:
  assumes "isHandling it" and "ShiftModifier \<notin> event_modifiers event"
  shows "m_horizontalSize (mouseMoveEvent env event it) =
           of_int (std_clamp
             (max (int_cast (2 * xp (if m_handle it = HandleType_Left
                                     then \<lparr>xp = - xp (event_pos event), yp = - yp (event_pos event)\<rparr>
                                     else event_pos event)))
                  (int_cast (2 * yp (if m_handle it = HandleType_Left
                                     then \<lparr>xp = - xp (event_pos event), yp = - yp (event_pos event)\<rparr>
                                     else event_pos event))))
             (photoEditorItemMinSize env) (photoEditorItemMaxSize env))"
  using assms
  by (simp add: mouseMoveEvent_def Let_def setRotation_def updateVerticalSize_def
      QPointF_times_def max_def)

lemma resize_vertical:
  assumes "isHandling it" and "ShiftModifier \<notin> event_modifiers event"
  shows "m_verticalSize (mouseMoveEvent env event it) =
           m_horizontalSize (mouseMoveEvent env event it) * m_aspectRatio (mouseMoveEvent env event it)"
    and "m_aspectRatio (mouseMoveEvent env event it) = m_aspectRatio it"
  using assms
  by (simp_all add: mouseMoveEvent_def Let_def setRotation_def updateVerticalSize_def)

text \<open>
  C2. A handle drag without Shift resizes the item. With \<open>p\<close> the pointer position in
  item coordinates, negated componentwise when the left handle is active, the new
  horizontal size is \<open>max (int (2 * p.x)) (int (2 * p.y))\<close> clamped to the inclusive
  range from \<open>photoEditorItemMinSize\<close> to \<open>photoEditorItemMaxSize\<close>, and the vertical
  size is then the new horizontal size times the aspect ratio.
\<close>

theorem mouseMoveEvent_resize:
  fixes env :: Env and event :: QGraphicsSceneMouseEvent and it :: ItemBase
  assumes "isHandling it" and "ShiftModifier \<notin> event_modifiers event"
    and "photoEditorItemMinSize env \<le> photoEditorItemMaxSize env"
  defines "p \<equiv> (if m_handle it = HandleType_Left
                then \<lparr>xp = - xp (event_pos event), yp = - yp (event_pos event)\<rparr>
                else event_pos event)"
  defines "v \<equiv> max (int_cast (2 * xp p)) (int_cast (2 * yp p))"
  defines "it' \<equiv> mouseMoveEvent env event it"
  shows "m_horizontalSize it' =
           of_int (max (photoEditorItemMinSize env) (min (photoEditorItemMaxSize env) v)) \<and>
         of_int (photoEditorItemMinSize env) \<le> m_horizontalSize it' \<and>
         m_horizontalSize it' \<le> of_int (photoEditorItemMaxSize env) \<and>
         (photoEditorItemMinSize env \<le> v \<and> v \<le> photoEditorItemMaxSize env
            \<longrightarrow> m_horizontalSize it' = of_int v) \<and>
         m_verticalSize it' = m_horizontalSize it' * m_aspectRatio it' \<and>
         m_aspectRatio it' = m_aspectRatio it"
proof -
  have h: "m_horizontalSize it' =
           of_int (max (photoEditorItemMinSize env) (min (photoEditorItemMaxSize env) v))"
    unfolding it'_def v_def p_def
    using resize_horizontal [OF assms(1,2)] std_clamp_max_min [OF assms(3)] by simp
  have b: "of_int (photoEditorItemMinSize env) \<le> m_horizontalSize it' \<and>
         m_horizontalSize it' \<le> of_int (photoEditorItemMaxSize env) \<and>
         (photoEditorItemMinSize env \<le> v \<and> v \<le> photoEditorItemMaxSize env
            \<longrightarrow> m_horizontalSize it' = of_int v)"
    unfolding h using assms(3) by auto
  have "m_verticalSize it' = m_horizontalSize it' * m_aspectRatio it' \<and>
         m_aspectRatio it' = m_aspectRatio it"
    unfolding it'_def using resize_vertical [OF assms(1,2)] by simp
  with h b show ?thesis by blast
qed

theorem mouseMoveEvent_resize_witness:
  "isHandling (example_item\<lparr>m_handle := HandleType_Left\<rparr>) \<and>
   ShiftModifier \<notin> event_modifiers
     \<lparr>event_pos = \<lparr>xp = - 30.6, yp = 10\<rparr>, event_button = LeftButton, event_modifiers = {}\<rparr> \<and>
   photoEditorItemMinSize example_env \<le> photoEditorItemMaxSize example_env \<and>
   m_horizontalSize (mouseMoveEvent example_env
     \<lparr>event_pos = \<lparr>xp = - 30.6, yp = 10\<rparr>, event_button = LeftButton, event_modifiers = {}\<rparr>
     (example_item\<lparr>m_handle := HandleType_Left\<rparr>)) = 61 \<and>
   m_verticalSize (mouseMoveEvent example_env
     \<lparr>event_pos = \<lparr>xp = - 30.6, yp = 10\<rparr>, event_button = LeftButton, event_modifiers = {}\<rparr>
     (example_item\<lparr>m_handle := HandleType_Left\<rparr>)) = 61"
proof -
  have h1: "isHandling (example_item\<lparr>m_handle := HandleType_Left\<rparr>)"
    by (simp add: isHandling_def)
  have h2: "ShiftModifier \<notin> event_modifiers
     \<lparr>event_pos = \<lparr>xp = - 30.6, yp = 10\<rparr>, event_button = LeftButton, event_modifiers = {}\<rparr>"
    by simp
  have h3: "photoEditorItemMinSize example_env \<le> photoEditorItemMaxSize example_env"
    by (simp add: example_env_def)
  have a: "m_aspectRatio (example_item\<lparr>m_handle := HandleType_Left\<rparr>) = 1"
    by (simp add: example_item_eq)
  have f: "int_cast (2 * (306 / 10)) = 61" "int_cast (- (2 * 10)) = - 20"
    by (simp_all add: int_cast_def)
  show ?thesis
    using h1 h2 h3 mouseMoveEvent_resize [OF h1 h2 h3] a f
    by (simp add: example_env_def)
qed

subsection \<open>What the scene operations leave alone\<close>

text \<open>
  \<open>contextMenuEvent\<close> and the menu actions write the base part, the menu and the
  flip flag of items; any reading \<open>g\<close> of an item that does not depend on those is the
  same before and after, for every item alive before.
\<close>

lemma length_update_item [simp]: "length (items (update_item this f w)) = length (items w)"
  by (simp add: update_item_def)

lemma length_clearSelection [simp]: "length (items (clearSelection s w)) = length (items w)"
  by (simp add: clearSelection_def)

lemma contextMenuEvent_unfold:
  "contextMenuEvent env this cev w =
     update_item this
       (\<lambda>it. it\<lparr>m_menu := Some
          \<lparr>menu_actions =
             [(''lng_photo_editor_menu_delete'', DeleteCallback),
              (''lng_photo_editor_menu_flip'', FlipCallback),
              (''lng_photo_editor_menu_duplicate'', DuplicateCallback)],
           menu_popup = Some (event_screenPos cev)\<rparr>\<rparr>)
       (case scene (items w ! this) of
          None \<Rightarrow> w
        | Some s \<Rightarrow>
            if \<not> isSelected (items w ! this)
            then update_item this (setSelected True) (clearSelection s w)
            else w)"
  by (simp add: contextMenuEvent_def Let_def)

lemma frame_update_item:
  assumes "\<And>it. g (f it) = g it" and "i < length (items w)"
  shows "g (items (update_item this f w) ! i) = g (items w ! i)"
proof (cases "this = i")
  case True
  with assms show ?thesis by (simp add: update_item_def)
next
  case False
  then show ?thesis by (simp add: update_item_def)
qed

lemma frame_clearSelection:
  assumes "\<And>it q. g (it\<lparr>base := q\<rparr>) = g it" and "i < length (items w)"
  shows "g (items (clearSelection s w) ! i) = g (items w ! i)"
  using assms by (simp add: clearSelection_def setSelected_def)

lemma frame_contextMenuEvent:
  assumes b: "\<And>it q. g (it\<lparr>base := q\<rparr>) = g it"
    and m: "\<And>it m. g (it\<lparr>m_menu := m\<rparr>) = g it"
    and i: "i < length (items w)"
  shows "g (items (contextMenuEvent env this cev w) ! i) = g (items w ! i)"
proof -
  define w1 where "w1 =
    (case scene (items w ! this) of
       None \<Rightarrow> w
     | Some s \<Rightarrow>
         if \<not> isSelected (items w ! this)
         then update_item this (setSelected True) (clearSelection s w)
         else w)"
  have sel: "g (setSelected True it) = g it" for it
    by (simp add: setSelected_def b)
  have len: "length (items w1) = length (items w)"
    by (simp add: w1_def split: option.split)
  have s1: "g (items w1 ! i) = g (items w ! i)"
    using i frame_update_item [of g "setSelected True", OF sel]
      frame_clearSelection [of g, OF b]
    by (simp add: w1_def split: option.split)
  show ?thesis
    unfolding contextMenuEvent_unfold w1_def [symmetric]
    using s1 len i frame_update_item [of g _ i w1, OF m] by simp
qed

lemma frame_trigger:
  assumes b: "\<And>it q. g (it\<lparr>base := q\<rparr>) = g it"
    and f: "\<And>it v. g (it\<lparr>m_flipped := v\<rparr>) = g it"
    and i: "i < length (items w)"
  shows "g (items (trigger env this cb w) ! i) = g (items w ! i)"
proof (cases cb)
  case DeleteCallback
  then show ?thesis
    using i frame_update_item [of g _ i w this, OF b]
    by (simp add: delete_action_def Scene_removeItem_def split: option.split)
next
  case FlipCallback
  have "g (setFlip v it) = g it" for v it
    by (simp add: setFlip_def performFlip_def f)
  then show ?thesis
    using FlipCallback i frame_update_item [of g "\<lambda>it. setFlip (\<not> flipped it) it" i w this]
    by (simp add: flip_action_def)
next
  case DuplicateCallback
  have "g (items (clearSelection s (w\<lparr>lastZ := z\<rparr>)) ! i) = g (items w ! i)" for s z
    using i frame_clearSelection [of g i "w\<lparr>lastZ := z\<rparr>" s, OF b] by simp
  then show ?thesis
    using DuplicateCallback i
    by (simp add: duplicate_action_def Let_def Scene_addItem_def nth_append split: option.split)
qed

subsection \<open>The vertical size follows the horizontal size\<close>

lemma sizes_base [simp]: "sizes (it\<lparr>base := q\<rparr>) = sizes it"
  by (simp add: sizes_def)

lemma sizes_handle [simp]: "sizes (it\<lparr>m_handle := h\<rparr>) = sizes it"
  by (simp add: sizes_def)

lemma sizes_menu [simp]: "sizes (it\<lparr>m_menu := m\<rparr>) = sizes it"
  by (simp add: sizes_def)

lemma sizes_setSelected [simp]: "sizes (setSelected b it) = sizes it"
  by (simp add: setSelected_def)

lemma sizes_setFlip [simp]: "sizes (setFlip b it) = sizes it"
  by (simp add: setFlip_def performFlip_def sizes_def)

lemma sizes_mouseMoveEvent:
  "\<not> isHandling it \<or> ShiftModifier \<in> event_modifiers ev \<Longrightarrow>
     sizes (mouseMoveEvent env ev it) = sizes it"
  by (auto simp: mouseMoveEvent_def Let_def setRotation_def)

lemma sizes_hoverMoveEvent: "sizes (hoverMoveEvent env hev it) = sizes it"
  by (simp add: hoverMoveEvent_def Let_def setCursor_def)

lemma sizes_mousePressEvent: "sizes (fst (mousePressEvent env ev (it, z))) = sizes it"
  by (simp add: mousePressEvent_def Let_def setCursor_def setZValue_def)

lemma sizes_mouseReleaseEvent: "sizes (mouseReleaseEvent env ev it) = sizes it"
  by (simp add: mouseReleaseEvent_def)

text \<open>
  C9. After \<open>setAspectRatio\<close> and after a resizing \<open>mouseMoveEvent\<close> the vertical size
  is the horizontal size times the aspect ratio, and no other operation changes any of
  the three: a \<open>mouseMoveEvent\<close> that does not resize, the hover, press and release
  handlers, \<open>setFlip\<close>, \<open>performFlip\<close>, \<open>setNumber\<close>, the zoom subscription, and, for every
  item alive, \<open>contextMenuEvent\<close> and the three menu actions. (\<open>paint\<close> and the
  accessors return no item; the constructor initialises the horizontal size of the
  object it builds.)
\<close>

theorem vertical_size_invariant:
  "m_verticalSize (setAspectRatio a it) =
     m_horizontalSize (setAspectRatio a it) * m_aspectRatio (setAspectRatio a it) \<and>
   (isHandling it \<and> ShiftModifier \<notin> event_modifiers ev \<longrightarrow>
      m_verticalSize (mouseMoveEvent env ev it) =
        m_horizontalSize (mouseMoveEvent env ev it) * m_aspectRatio (mouseMoveEvent env ev it)) \<and>
   (\<not> isHandling it \<or> ShiftModifier \<in> event_modifiers ev \<longrightarrow>
      sizes (mouseMoveEvent env ev it) = sizes it) \<and>
   sizes (hoverMoveEvent env hev it) = sizes it \<and>
   sizes (fst (mousePressEvent env ev (it, z))) = sizes it \<and>
   sizes (mouseReleaseEvent env ev it) = sizes it \<and>
   sizes (setFlip b it) = sizes it \<and>
   sizes (performFlip it) = sizes it \<and>
   sizes (setNumber n it) = sizes it \<and>
   sizes (zoom_next env zoom it) = sizes it \<and>
   (\<forall>i < length (items w).
      sizes (items (contextMenuEvent env this cev w) ! i) = sizes (items w ! i) \<and>
      sizes (items (trigger env this cb w) ! i) = sizes (items w ! i))"
proof -
  have 1: "m_verticalSize (setAspectRatio a it) =
     m_horizontalSize (setAspectRatio a it) * m_aspectRatio (setAspectRatio a it)"
    by (simp add: setAspectRatio_def updateVerticalSize_def)
  have 2: "isHandling it \<and> ShiftModifier \<notin> event_modifiers ev \<longrightarrow>
      m_verticalSize (mouseMoveEvent env ev it) =
        m_horizontalSize (mouseMoveEvent env ev it) * m_aspectRatio (mouseMoveEvent env ev it)"
    using resize_vertical(1) by blast
  have 3: "\<not> isHandling it \<or> ShiftModifier \<in> event_modifiers ev \<longrightarrow>
      sizes (mouseMoveEvent env ev it) = sizes it"
    using sizes_mouseMoveEvent by blast
  have 4: "sizes (performFlip it) = sizes it \<and> sizes (setNumber n it) = sizes it \<and>
           sizes (zoom_next env zoom it) = sizes it"
    by (simp add: performFlip_def setNumber_def zoom_next_def sizes_def Let_def)
  have 5: "\<forall>i < length (items w).
      sizes (items (contextMenuEvent env this cev w) ! i) = sizes (items w ! i) \<and>
      sizes (items (trigger env this cb w) ! i) = sizes (items w ! i)"
    using frame_contextMenuEvent [of sizes _ w env this cev]
      frame_trigger [of sizes _ w env this cb]
    by (simp add: sizes_def)
  from 1 2 3 4 5 show ?thesis
    using sizes_hoverMoveEvent sizes_mousePressEvent sizes_mouseReleaseEvent sizes_setFlip
    by blast
qed


theorem vertical_size_invariant_witness:
  "isHandling (example_item\<lparr>m_handle := HandleType_Right\<rparr>) \<and>
   ShiftModifier \<notin> event_modifiers
     \<lparr>event_pos = \<lparr>xp = 40, yp = 10\<rparr>, event_button = LeftButton, event_modifiers = {}\<rparr> \<and>
   m_verticalSize (mouseMoveEvent example_env
       \<lparr>event_pos = \<lparr>xp = 40, yp = 10\<rparr>, event_button = LeftButton, event_modifiers = {}\<rparr>
       (example_item\<lparr>m_handle := HandleType_Right\<rparr>)) =
     m_horizontalSize (mouseMoveEvent example_env
       \<lparr>event_pos = \<lparr>xp = 40, yp = 10\<rparr>, event_button = LeftButton, event_modifiers = {}\<rparr>
       (example_item\<lparr>m_handle := HandleType_Right\<rparr>)) *
     m_aspectRatio (mouseMoveEvent example_env
       \<lparr>event_pos = \<lparr>xp = 40, yp = 10\<rparr>, event_button = LeftButton, event_modifiers = {}\<rparr>
       (example_item\<lparr>m_handle := HandleType_Right\<rparr>)) \<and>
   \<not> isHandling example_item \<and>
   sizes (mouseMoveEvent example_env
       \<lparr>event_pos = \<lparr>xp = 40, yp = 10\<rparr>, event_button = LeftButton, event_modifiers = {}\<rparr>
       example_item) = (100, 100, 1) \<and>
   0 < length (items example_world) \<and>
   sizes (items (contextMenuEvent example_env 0 \<lparr>event_screenPos = (5, 5)\<rparr> example_world) ! 0) =
     (100, 100, 1) \<and>
   sizes (items (trigger example_env 0 DuplicateCallback example_world) ! 0) = (100, 100, 1)"
proof -
  have h1: "isHandling (example_item\<lparr>m_handle := HandleType_Right\<rparr>)"
    by (simp add: isHandling_def)
  have h2: "ShiftModifier \<notin> event_modifiers
     \<lparr>event_pos = \<lparr>xp = 40, yp = 10\<rparr>, event_button = LeftButton, event_modifiers = {}\<rparr>"
    by simp
  have h3: "\<not> isHandling example_item"
    by (simp add: isHandling_def example_item_eq)
  have h4: "0 < length (items example_world)"
    by (simp add: example_world_eq)
  have s: "sizes example_item = (100, 100, 1)" "sizes (items example_world ! 0) = (100, 100, 1)"
    by (simp_all add: sizes_def example_world_eq example_item_eq)
  show ?thesis
    using h1 h2 h3 h4 s
      vertical_size_invariant [of _ "example_item\<lparr>m_handle := HandleType_Right\<rparr>"
        "\<lparr>event_pos = \<lparr>xp = 40, yp = 10\<rparr>, event_button = LeftButton, event_modifiers = {}\<rparr>"
        example_env]
      vertical_size_invariant [of _ example_item
        "\<lparr>event_pos = \<lparr>xp = 40, yp = 10\<rparr>, event_button = LeftButton, event_modifiers = {}\<rparr>"
        example_env _ _ _ _ _ example_world 0 "\<lparr>event_screenPos = (5, 5)\<rparr>" DuplicateCallback]
    by simp
qed


subsection \<open>The active handle over a sequence of events\<close>

lemma handleType_base [simp]: "handleType (it\<lparr>base := q\<rparr>) pos = handleType it pos"
  by (simp add: handleType_def rightHandleRect_def leftHandleRect_def)

lemma handle_mousePressEvent:
  "m_handle (fst (mousePressEvent env ev (it, z))) =
     (if event_button ev = LeftButton then handleType it (event_pos ev) else m_handle it)"
  by (simp add: mousePressEvent_def Let_def setCursor_def setZValue_def)

lemma handle_mouseReleaseEvent:
  "m_handle (mouseReleaseEvent env ev it) =
     (if event_button ev = LeftButton \<and> isHandling it then HandleType_None else m_handle it)"
  by (simp add: mouseReleaseEvent_def)

lemma handle_mouseMoveEvent: "m_handle (mouseMoveEvent env ev it) = m_handle it"
  by (simp add: mouseMoveEvent_def Let_def setRotation_def updateVerticalSize_def)

lemma handle_hoverMoveEvent: "m_handle (hoverMoveEvent env hev it) = m_handle it"
  by (simp add: hoverMoveEvent_def Let_def setCursor_def)

lemma isHandling_deliver:
  "isHandling (fst (deliver env e s)) = latest_press_step (fst s) e (isHandling (fst s))"
proof (cases e)
  case (MouseMove ev)
  then show ?thesis by (simp add: isHandling_def handle_mouseMoveEvent)
next
  case (HoverMove ev)
  then show ?thesis by (simp add: isHandling_def handle_hoverMoveEvent)
next
  case (MousePress ev)
  then show ?thesis
    using handle_mousePressEvent [of env ev "fst s" "snd s"] by (simp add: isHandling_def)
next
  case (MouseRelease ev)
  then show ?thesis by (simp add: isHandling_def handle_mouseReleaseEvent)
qed

lemma isHandling_run:
  "isHandling (fst (run env s evs)) = latest_press env (isHandling (fst s)) s evs"
proof (induction evs arbitrary: s)
  case Nil
  show ?case by simp
next
  case (Cons e es)
  show ?case using Cons.IH [of "deliver env e s"] by (simp add: isHandling_deliver)
qed

lemmas handler_eval =
  mousePressEvent_def mouseReleaseEvent_def mouseMoveEvent_def hoverMoveEvent_def
  setZValue_def setCursor_def setRotation_def updateVerticalSize_def

text \<open>
  C6, as stated: in every sequence of mouse events \<open>isHandling\<close> is true exactly between
  a left-button press that hits a handle and the next left-button release. It fails
  for a left-button press on the right handle followed, with no release between, by a
  left-button press that misses both handles: the second press sets the active handle
  to None.
\<close>

theorem isHandling_between_counterexample:
  "\<not> isHandling example_item \<and>
   between_press_and_release example_env False (example_item, 0)
     [MousePress \<lparr>event_pos = \<lparr>xp = 50, yp = 0\<rparr>, event_button = LeftButton, event_modifiers = {}\<rparr>,
      MousePress \<lparr>event_pos = \<lparr>xp = 0, yp = 0\<rparr>, event_button = LeftButton, event_modifiers = {}\<rparr>] \<and>
   \<not> isHandling (fst (run example_env (example_item, 0)
     [MousePress \<lparr>event_pos = \<lparr>xp = 50, yp = 0\<rparr>, event_button = LeftButton, event_modifiers = {}\<rparr>,
      MousePress \<lparr>event_pos = \<lparr>xp = 0, yp = 0\<rparr>, event_button = LeftButton, event_modifiers = {}\<rparr>]))"
  by (simp add: example_eval handler_eval)

text \<open>
  C6, amended. In every sequence of mouse events \<open>isHandling\<close> is true exactly when the
  latest left-button press hit a handle and no left-button release has followed it:
  \<open>mousePressEvent\<close> with the left button sets the active handle to the hit-test of the
  event position (and leaves it alone with another button), \<open>mouseReleaseEvent\<close> with
  the left button while handling resets it to None (and leaves it alone otherwise),
  and the move and hover handlers, \<open>contextMenuEvent\<close> and the menu actions do not
  change the active handle of any item.
\<close>

theorem isHandling_latest_press:
  "isHandling (fst (run env s evs)) = latest_press env (isHandling (fst s)) s evs \<and>
   (event_button ev = LeftButton \<longrightarrow>
      m_handle (fst (mousePressEvent env ev (it, z))) = handleType it (event_pos ev)) \<and>
   (event_button ev \<noteq> LeftButton \<longrightarrow>
      m_handle (fst (mousePressEvent env ev (it, z))) = m_handle it) \<and>
   (event_button ev = LeftButton \<and> isHandling it \<longrightarrow>
      m_handle (mouseReleaseEvent env ev it) = HandleType_None) \<and>
   (\<not> (event_button ev = LeftButton \<and> isHandling it) \<longrightarrow>
      m_handle (mouseReleaseEvent env ev it) = m_handle it) \<and>
   m_handle (mouseMoveEvent env ev it) = m_handle it \<and>
   m_handle (hoverMoveEvent env hev it) = m_handle it \<and>
   (\<forall>i < length (items w).
      m_handle (items (contextMenuEvent env this cev w) ! i) = m_handle (items w ! i) \<and>
      m_handle (items (trigger env this cb w) ! i) = m_handle (items w ! i))"
proof -
  have 1: "\<forall>i < length (items w).
      m_handle (items (contextMenuEvent env this cev w) ! i) = m_handle (items w ! i) \<and>
      m_handle (items (trigger env this cb w) ! i) = m_handle (items w ! i)"
    using frame_contextMenuEvent [of m_handle _ w env this cev]
      frame_trigger [of m_handle _ w env this cb]
    by simp
  show ?thesis
    using 1 isHandling_run [of env s evs] handle_mousePressEvent [of env ev it z]
      handle_mouseReleaseEvent [of env ev it] handle_mouseMoveEvent [of env ev it]
      handle_hoverMoveEvent [of env hev it]
    by simp
qed

theorem isHandling_latest_press_witness:
  "isHandling (fst (run example_env (example_item, 0)
     [MousePress \<lparr>event_pos = \<lparr>xp = 50, yp = 0\<rparr>, event_button = LeftButton, event_modifiers = {}\<rparr>,
      MouseMove \<lparr>event_pos = \<lparr>xp = 60, yp = 0\<rparr>, event_button = NoButton, event_modifiers = {ShiftModifier}\<rparr>])) \<and>
   \<not> isHandling (fst (run example_env (example_item, 0)
     [MousePress \<lparr>event_pos = \<lparr>xp = 50, yp = 0\<rparr>, event_button = LeftButton, event_modifiers = {}\<rparr>,
      MouseMove \<lparr>event_pos = \<lparr>xp = 60, yp = 0\<rparr>, event_button = NoButton, event_modifiers = {ShiftModifier}\<rparr>,
      MouseRelease \<lparr>event_pos = \<lparr>xp = 60, yp = 0\<rparr>, event_button = LeftButton, event_modifiers = {}\<rparr>])) \<and>
   event_button \<lparr>event_pos = \<lparr>xp = 50, yp = 0\<rparr>, event_button = LeftButton, event_modifiers = {}\<rparr>
     = LeftButton \<and>
   m_handle (fst (mousePressEvent example_env
     \<lparr>event_pos = \<lparr>xp = 50, yp = 0\<rparr>, event_button = LeftButton, event_modifiers = {}\<rparr>
     (example_item, 0))) = HandleType_Right \<and>
   isHandling (example_item\<lparr>m_handle := HandleType_Left\<rparr>) \<and>
   m_handle (mouseReleaseEvent example_env
     \<lparr>event_pos = \<lparr>xp = 50, yp = 0\<rparr>, event_button = LeftButton, event_modifiers = {}\<rparr>
     (example_item\<lparr>m_handle := HandleType_Left\<rparr>)) = HandleType_None \<and>
   event_button \<lparr>event_pos = \<lparr>xp = 50, yp = 0\<rparr>, event_button = RightButton, event_modifiers = {}\<rparr>
     \<noteq> LeftButton \<and>
   m_handle (fst (mousePressEvent example_env
     \<lparr>event_pos = \<lparr>xp = 50, yp = 0\<rparr>, event_button = RightButton, event_modifiers = {}\<rparr>
     (example_item\<lparr>m_handle := HandleType_Left\<rparr>, 0))) = HandleType_Left \<and>
   m_handle (mouseReleaseEvent example_env
     \<lparr>event_pos = \<lparr>xp = 50, yp = 0\<rparr>, event_button = RightButton, event_modifiers = {}\<rparr>
     (example_item\<lparr>m_handle := HandleType_Left\<rparr>)) = HandleType_Left \<and>
   0 < length (items example_world) \<and>
   m_handle (items (trigger example_env 0 DuplicateCallback example_world) ! 0) = HandleType_None"
proof -
  have h: "0 < length (items example_world)"
    by (simp add: example_world_eq)
  have a: "m_handle (items example_world ! 0) = HandleType_None"
    by (simp add: example_world_eq example_item_eq)
  have b: "latest_press example_env (isHandling (fst (example_item, 0::real))) (example_item, 0)
     [MousePress \<lparr>event_pos = \<lparr>xp = 50, yp = 0\<rparr>, event_button = LeftButton, event_modifiers = {}\<rparr>,
      MouseMove \<lparr>event_pos = \<lparr>xp = 60, yp = 0\<rparr>, event_button = NoButton, event_modifiers = {ShiftModifier}\<rparr>]"
    by (simp add: example_eval)
  have c: "\<not> latest_press example_env (isHandling (fst (example_item, 0::real))) (example_item, 0)
     [MousePress \<lparr>event_pos = \<lparr>xp = 50, yp = 0\<rparr>, event_button = LeftButton, event_modifiers = {}\<rparr>,
      MouseMove \<lparr>event_pos = \<lparr>xp = 60, yp = 0\<rparr>, event_button = NoButton, event_modifiers = {ShiftModifier}\<rparr>,
      MouseRelease \<lparr>event_pos = \<lparr>xp = 60, yp = 0\<rparr>, event_button = LeftButton, event_modifiers = {}\<rparr>]"
    by (simp add: example_eval)
  have d: "handleType example_item \<lparr>xp = 50, yp = 0\<rparr> = HandleType_Right"
    "isHandling (example_item\<lparr>m_handle := HandleType_Left\<rparr>)"
    by (simp_all add: example_eval)
  show ?thesis
    using h a b c d
      isHandling_latest_press [of example_env "(example_item, 0)"
        "[MousePress \<lparr>event_pos = \<lparr>xp = 50, yp = 0\<rparr>, event_button = LeftButton, event_modifiers = {}\<rparr>,
      MouseMove \<lparr>event_pos = \<lparr>xp = 60, yp = 0\<rparr>, event_button = NoButton, event_modifiers = {ShiftModifier}\<rparr>]"
        "\<lparr>event_pos = \<lparr>xp = 50, yp = 0\<rparr>, event_button = LeftButton, event_modifiers = {}\<rparr>"
        example_item 0 _ example_world 0 _ DuplicateCallback]
      isHandling_latest_press [of example_env "(example_item, 0)"
        "[MousePress \<lparr>event_pos = \<lparr>xp = 50, yp = 0\<rparr>, event_button = LeftButton, event_modifiers = {}\<rparr>,
      MouseMove \<lparr>event_pos = \<lparr>xp = 60, yp = 0\<rparr>, event_button = NoButton, event_modifiers = {ShiftModifier}\<rparr>,
      MouseRelease \<lparr>event_pos = \<lparr>xp = 60, yp = 0\<rparr>, event_button = LeftButton, event_modifiers = {}\<rparr>]"
        "\<lparr>event_pos = \<lparr>xp = 50, yp = 0\<rparr>, event_button = LeftButton, event_modifiers = {}\<rparr>"
        "example_item\<lparr>m_handle := HandleType_Left\<rparr>"]
      isHandling_latest_press [of example_env "(example_item, 0)" "[]"
        "\<lparr>event_pos = \<lparr>xp = 50, yp = 0\<rparr>, event_button = RightButton, event_modifiers = {}\<rparr>"
        "example_item\<lparr>m_handle := HandleType_Left\<rparr>" 0]
    by simp
qed

subsection \<open>Painting\<close>

lemma pens_deliver: "pens (fst (deliver env e s)) = pens (fst s)"
proof (cases e)
  case (MouseMove ev)
  then show ?thesis
    by (simp add: pens_def mouseMoveEvent_def Let_def setRotation_def updateVerticalSize_def)
next
  case (HoverMove ev)
  then show ?thesis by (simp add: pens_def hoverMoveEvent_def Let_def setCursor_def)
next
  case (MousePress ev)
  then show ?thesis
    by (simp add: pens_def mousePressEvent_def Let_def setCursor_def setZValue_def)
next
  case (MouseRelease ev)
  then show ?thesis by (simp add: pens_def mouseReleaseEvent_def)
qed

lemma pens_run: "pens (fst (run env s evs)) = pens (fst s)"
  by (induction evs arbitrary: s) (simp_all add: pens_deliver)

lemma pens_ctor:
  "pens (fst (ItemBase_ctor env zoomValue z size' x y)) = (selectPen_init, selectPenInactive_init)"
  by (simp add: pens_def ItemBase_ctor_def Let_def zoom_next_def setZValue_def setPos_def
      setAcceptHoverEvents_def setFlags_def)

lemma paint_unselected:
  "State_Selected \<notin> option_state option \<Longrightarrow> paint env it p option = p"
  by (simp add: paint_def)

lemma paint_selected:
  "State_Selected \<in> option_state option \<Longrightarrow>
     painter_calls (paint env it p option) = painter_calls p @
       [DrawRect (innerRect it)
          (if State_HasFocus \<in> option_state option then m_selectPen it else m_selectPenInactive it)
          (painter_brush p) True,
        DrawEllipse (rightHandleRect it)
          ((if State_HasFocus \<in> option_state option then m_selectPen it else m_selectPenInactive it)
             \<lparr>pen_style := SolidLine\<rparr>)
          (photoEditorItemBaseHandleFg env) True,
        DrawEllipse (leftHandleRect it)
          ((if State_HasFocus \<in> option_state option then m_selectPen it else m_selectPenInactive it)
             \<lparr>pen_style := SolidLine\<rparr>)
          (photoEditorItemBaseHandleFg env) True]"
  by (simp add: paint_def Let_def setPen_def setBrush_def drawRect_def drawEllipse_def PenStyled_def)

text \<open>
  C7. When the style option's state does not include \<open>State_Selected\<close>, \<open>paint\<close> returns
  the painter unchanged. When it does, \<open>paint\<close> adds three drawing calls: the inner
  rectangle with the current brush and the pen \<open>_selectPen\<close> when the state has the
  focus, \<open>_selectPenInactive\<close> otherwise, then an ellipse in the right and one in the
  left handle rectangle, with that pen made solid and the handle brush of the style.
  The two pens are the dashed white and the dashed gray pen of the constructor, in
  every state that mouse events reach from a constructed item.
\<close>

theorem paint_spec:
  fixes env :: Env and it :: ItemBase and p :: QPainter and option :: QStyleOptionGraphicsItem
  defines "pen \<equiv> (if State_HasFocus \<in> option_state option
                   then m_selectPen it else m_selectPenInactive it)"
  shows "(State_Selected \<notin> option_state option \<longrightarrow> paint env it p option = p) \<and>
   (State_Selected \<in> option_state option \<longrightarrow>
      painter_calls (paint env it p option) = painter_calls p @
        [DrawRect (innerRect it) pen (painter_brush p) True,
         DrawEllipse (rightHandleRect it) (pen\<lparr>pen_style := SolidLine\<rparr>)
           (photoEditorItemBaseHandleFg env) True,
         DrawEllipse (leftHandleRect it) (pen\<lparr>pen_style := SolidLine\<rparr>)
           (photoEditorItemBaseHandleFg env) True]) \<and>
   (pens it = (selectPen_init, selectPenInactive_init) \<longrightarrow>
      pen_style pen = DashLine \<and>
      pen_brush pen =
        SolidBrush (if State_HasFocus \<in> option_state option then Qt_white else Qt_gray)) \<and>
   pens (fst (run env (ItemBase_ctor env zoomValue z size' x y) evs)) =
     (selectPen_init, selectPenInactive_init)"
proof -
  have 1: "State_Selected \<notin> option_state option \<longrightarrow> paint env it p option = p"
    using paint_unselected by blast
  have 2: "State_Selected \<in> option_state option \<longrightarrow>
      painter_calls (paint env it p option) = painter_calls p @
        [DrawRect (innerRect it) pen (painter_brush p) True,
         DrawEllipse (rightHandleRect it) (pen\<lparr>pen_style := SolidLine\<rparr>)
           (photoEditorItemBaseHandleFg env) True,
         DrawEllipse (leftHandleRect it) (pen\<lparr>pen_style := SolidLine\<rparr>)
           (photoEditorItemBaseHandleFg env) True]"
    unfolding pen_def using paint_selected by blast
  have 3: "pens it = (selectPen_init, selectPenInactive_init) \<longrightarrow>
      pen_style pen = DashLine \<and>
      pen_brush pen =
        SolidBrush (if State_HasFocus \<in> option_state option then Qt_white else Qt_gray)"
    by (simp add: pen_def pens_def selectPen_init_def selectPenInactive_init_def)
  have 4: "pens (fst (run env (ItemBase_ctor env zoomValue z size' x y) evs)) =
     (selectPen_init, selectPenInactive_init)"
    by (simp add: pens_run pens_ctor)
  from 1 2 3 4 show ?thesis by blast
qed

theorem paint_spec_witness:
  "State_Selected \<notin> option_state \<lparr>option_state = {State_Enabled}\<rparr> \<and>
   paint example_env example_item
     \<lparr>painter_pen = selectPen_init, painter_brush = NoBrush, painter_hq = False, painter_calls = []\<rparr>
     \<lparr>option_state = {State_Enabled}\<rparr> =
     \<lparr>painter_pen = selectPen_init, painter_brush = NoBrush, painter_hq = False, painter_calls = []\<rparr> \<and>
   State_Selected \<in> option_state \<lparr>option_state = {State_Selected}\<rparr> \<and>
   pens example_item = (selectPen_init, selectPenInactive_init) \<and>
   painter_calls (paint example_env example_item
     \<lparr>painter_pen = selectPen_init, painter_brush = NoBrush, painter_hq = False, painter_calls = []\<rparr>
     \<lparr>option_state = {State_Selected}\<rparr>) =
     [DrawRect \<lparr>rx = - 50, ry = - 50, rw = 100, rh = 100\<rparr>
        \<lparr>pen_brush = SolidBrush Qt_gray, pen_width = 1, pen_style = DashLine,
          pen_cap = SquareCap, pen_join = RoundJoin\<rparr> NoBrush True,
      DrawEllipse \<lparr>rx = 40, ry = - 10, rw = 20, rh = 20\<rparr>
        \<lparr>pen_brush = SolidBrush Qt_gray, pen_width = 1, pen_style = SolidLine,
          pen_cap = SquareCap, pen_join = RoundJoin\<rparr>
        (StyleBrush ''photoEditorItemBaseHandleFg'') True,
      DrawEllipse \<lparr>rx = - 60, ry = - 10, rw = 20, rh = 20\<rparr>
        \<lparr>pen_brush = SolidBrush Qt_gray, pen_width = 1, pen_style = SolidLine,
          pen_cap = SquareCap, pen_join = RoundJoin\<rparr>
        (StyleBrush ''photoEditorItemBaseHandleFg'') True]"
proof -
  have h1: "State_Selected \<notin> option_state \<lparr>option_state = {State_Enabled}\<rparr>"
    by simp
  have h2: "State_Selected \<in> option_state \<lparr>option_state = {State_Selected}\<rparr>"
    by simp
  have h3: "pens example_item = (selectPen_init, selectPenInactive_init)"
    by (simp add: pens_def example_item_eq)
  have g: "innerRect example_item = \<lparr>rx = - 50, ry = - 50, rw = 100, rh = 100\<rparr>"
    "rightHandleRect example_item = \<lparr>rx = 40, ry = - 10, rw = 20, rh = 20\<rparr>"
    "leftHandleRect example_item = \<lparr>rx = - 60, ry = - 10, rw = 20, rh = 20\<rparr>"
    "m_selectPenInactive example_item = \<lparr>pen_brush = SolidBrush Qt_gray, pen_width = 1,
       pen_style = DashLine, pen_cap = SquareCap, pen_join = RoundJoin\<rparr>"
    "photoEditorItemBaseHandleFg example_env = StyleBrush ''photoEditorItemBaseHandleFg''"
    by (simp_all add: example_item_eq innerRect_def rightHandleRect_def leftHandleRect_def
        selectPenInactive_init_def example_env_def)
  show ?thesis
    using h1 h2 h3 g
      paint_spec [of "\<lparr>option_state = {State_Enabled}\<rparr>" example_env example_item
        "\<lparr>painter_pen = selectPen_init, painter_brush = NoBrush, painter_hq = False, painter_calls = []\<rparr>"]
      paint_spec [of "\<lparr>option_state = {State_Selected}\<rparr>" example_env example_item
        "\<lparr>painter_pen = selectPen_init, painter_brush = NoBrush, painter_hq = False, painter_calls = []\<rparr>"]
    by simp
qed

subsection \<open>The context menu\<close>

lemma nth_update_item_this:
  "this < length (items w) \<Longrightarrow> items (update_item this f w) ! this = f (items w ! this)"
  by (simp add: update_item_def)

lemma length_contextMenuEvent [simp]:
  "length (items (contextMenuEvent env this cev w)) = length (items w)"
  by (simp add: contextMenuEvent_unfold split: option.split)

lemma menu_contextMenuEvent:
  assumes "this < length (items w)"
  shows "m_menu (items (contextMenuEvent env this event w) ! this) =
     Some \<lparr>menu_actions =
             [(''lng_photo_editor_menu_delete'', DeleteCallback),
              (''lng_photo_editor_menu_flip'', FlipCallback),
              (''lng_photo_editor_menu_duplicate'', DuplicateCallback)],
           menu_popup = Some (event_screenPos event)\<rparr>"
proof -
  define w1 where "w1 =
    (case scene (items w ! this) of
       None \<Rightarrow> w
     | Some s \<Rightarrow>
         if \<not> isSelected (items w ! this)
         then update_item this (setSelected True) (clearSelection s w)
         else w)"
  have len: "this < length (items w1)"
    using assms by (simp add: w1_def split: option.split)
  show ?thesis
    unfolding contextMenuEvent_unfold w1_def [symmetric]
    by (simp add: nth_update_item_this [OF len])
qed

lemma delete_attached:
  assumes "this < length (items w)" and "scene (items w ! this) = Some s"
  shows "scene (items (trigger env this DeleteCallback w) ! this) = None"
  using assms
  by (simp add: delete_action_def Scene_removeItem_def nth_update_item_this scene_def)

lemma delete_others:
  assumes "i < length (items w)" and "i \<noteq> this"
  shows "items (trigger env this DeleteCallback w) ! i = items w ! i"
  using assms
  by (simp add: delete_action_def Scene_removeItem_def update_item_def split: option.split)

lemma delete_detached:
  "scene (items w ! this) = None \<Longrightarrow> trigger env this DeleteCallback w = w"
  by (simp add: delete_action_def)

lemma flip_negates:
  assumes "this < length (items w)"
  shows "flipped (items (trigger env this FlipCallback w) ! this) = (\<not> flipped (items w ! this))"
  using assms
  by (simp add: flip_action_def nth_update_item_this setFlip_def performFlip_def flipped_def)

text \<open>
  C4. \<open>contextMenuEvent\<close> gives the item a popup menu of exactly three actions, in the
  order delete, flip, duplicate, and shows it at the event's screen position. Run in
  any later state, the delete action detaches the item from its scene (and touches no
  other item; it does nothing for an item that has no scene), the flip action sets the
  flip state to the negation of \<open>flipped\<close>, and the third action duplicates.
\<close>

theorem contextMenuEvent_menu:
  assumes "this < length (items w)" and "this < length (items w')"
  shows "m_menu (items (contextMenuEvent env this event w) ! this) =
     Some \<lparr>menu_actions =
             [(''lng_photo_editor_menu_delete'', DeleteCallback),
              (''lng_photo_editor_menu_flip'', FlipCallback),
              (''lng_photo_editor_menu_duplicate'', DuplicateCallback)],
           menu_popup = Some (event_screenPos event)\<rparr> \<and>
   (scene (items w' ! this) \<noteq> None \<longrightarrow>
      scene (items (trigger env this DeleteCallback w') ! this) = None) \<and>
   (\<forall>i < length (items w'). i \<noteq> this \<longrightarrow>
      items (trigger env this DeleteCallback w') ! i = items w' ! i) \<and>
   (scene (items w' ! this) = None \<longrightarrow> trigger env this DeleteCallback w' = w') \<and>
   flipped (items (trigger env this FlipCallback w') ! this) = (\<not> flipped (items w' ! this)) \<and>
   trigger env this DuplicateCallback w' = duplicate_action env this w'"
proof -
  have 1: "scene (items w' ! this) \<noteq> None \<longrightarrow>
      scene (items (trigger env this DeleteCallback w') ! this) = None"
    using delete_attached [OF assms(2)] by blast
  have 2: "\<forall>i < length (items w'). i \<noteq> this \<longrightarrow>
      items (trigger env this DeleteCallback w') ! i = items w' ! i"
    using delete_others by blast
  have 3: "scene (items w' ! this) = None \<longrightarrow> trigger env this DeleteCallback w' = w'"
    using delete_detached by blast
  have 4: "trigger env this DuplicateCallback w' = duplicate_action env this w'"
    by simp
  from 1 2 3 4 menu_contextMenuEvent [OF assms(1)] flip_negates [OF assms(2)]
  show ?thesis by blast
qed

theorem contextMenuEvent_menu_witness:
  "0 < length (items example_world) \<and>
   m_menu (items (contextMenuEvent example_env 0 \<lparr>event_screenPos = (5, 5)\<rparr> example_world) ! 0) =
     Some \<lparr>menu_actions =
             [(''lng_photo_editor_menu_delete'', DeleteCallback),
              (''lng_photo_editor_menu_flip'', FlipCallback),
              (''lng_photo_editor_menu_duplicate'', DuplicateCallback)],
           menu_popup = Some (5, 5)\<rparr> \<and>
   scene (items example_world ! 0) \<noteq> None \<and>
   scene (items (trigger example_env 0 DeleteCallback example_world) ! 0) = None \<and>
   flipped (items (trigger example_env 0 FlipCallback example_world) ! 0) \<and>
   0 < length (items \<lparr>items = [example_item], lastZ = 1\<rparr>) \<and>
   scene (items \<lparr>items = [example_item], lastZ = 1\<rparr> ! 0) = None \<and>
   trigger example_env 0 DeleteCallback \<lparr>items = [example_item], lastZ = 1\<rparr> =
     \<lparr>items = [example_item], lastZ = 1\<rparr> \<and>
   1 < length (items \<lparr>items = [example_item, example_item], lastZ = 1\<rparr>) \<and>
   items (trigger example_env 0 DeleteCallback \<lparr>items = [example_item, example_item], lastZ = 1\<rparr>) ! 1 =
     example_item"
proof -
  have h1: "0 < length (items example_world)"
    by (simp add: example_world_eq)
  have h2: "scene (items example_world ! 0) \<noteq> None" "\<not> flipped (items example_world ! 0)"
    by (simp_all add: example_world_eq scene_def flipped_def example_item_eq)
  have h3: "0 < length (items \<lparr>items = [example_item], lastZ = 1\<rparr>)"
    by simp
  have h4: "scene (items \<lparr>items = [example_item], lastZ = 1\<rparr> ! 0) = None"
    by (simp add: scene_def example_item_eq)
  have h5: "0 < length (items \<lparr>items = [example_item, example_item], lastZ = 1\<rparr>)"
    "1 < length (items \<lparr>items = [example_item, example_item], lastZ = 1\<rparr>)"
    "(1::nat) \<noteq> 0"
    by simp_all
  show ?thesis
    using h1 h2 h3 h4 h5
      contextMenuEvent_menu [OF h1 h1, of example_env "\<lparr>event_screenPos = (5, 5)\<rparr>"]
      contextMenuEvent_menu [OF h1 h3, of example_env]
      contextMenuEvent_menu [OF h1 h5(1), of example_env]
    by simp
qed

subsection \<open>The duplicate action\<close>

lemma int_cast_of_int [simp]: "int_cast (of_int k) = k"
  by (simp add: int_cast_def)

lemma int_cast_Ints: "v \<in> \<int> \<Longrightarrow> of_int (int_cast v) = v"
  by (auto elim: Ints_cases)

lemma int_cast_near: "\<bar>of_int (int_cast v) - v\<bar> < 1"
proof (cases "0 \<le> v")
  case True
  then have "int_cast v = \<lfloor>v\<rfloor>" by (simp add: int_cast_def)
  then show ?thesis by linarith
next
  case False
  then have "int_cast v = \<lceil>v\<rceil>" by (simp add: int_cast_def)
  then show ?thesis by linarith
qed

lemma integral_deliver:
  assumes "m_horizontalSize (fst s) \<in> \<int>"
  shows "m_horizontalSize (fst (deliver env e s)) \<in> \<int>"
proof (cases e)
  case (MouseMove ev)
  then show ?thesis using assms
    by (simp add: mouseMoveEvent_def Let_def setRotation_def updateVerticalSize_def)
next
  case (HoverMove ev)
  then show ?thesis using assms by (simp add: hoverMoveEvent_def Let_def setCursor_def)
next
  case (MousePress ev)
  then show ?thesis using assms
    by (simp add: mousePressEvent_def Let_def setCursor_def setZValue_def)
next
  case (MouseRelease ev)
  then show ?thesis using assms by (simp add: mouseReleaseEvent_def)
qed

lemma integral_run:
  "m_horizontalSize (fst s) \<in> \<int> \<Longrightarrow> m_horizontalSize (fst (run env s evs)) \<in> \<int>"
  by (induction evs arbitrary: s) (simp_all add: integral_deliver)

lemma integral_ctor: "m_horizontalSize (fst (ItemBase_ctor env zoomValue z size' x y)) \<in> \<int>"
  by (simp add: ItemBase_ctor_def Let_def zoom_next_def setZValue_def setPos_def
      setAcceptHoverEvents_def setFlags_def)

lemmas ctor_eval =
  duplicate_def ItemBase_ctor_def Let_def zoom_next_def setZValue_def setPos_def
  setAcceptHoverEvents_def setFlags_def setFlip_def performFlip_def setRotation_def
  setSelected_def Scene_addItem_def

lemma duplicate_items:
  assumes "scene (items w ! this) = Some s"
  shows "items (duplicate_action env this w) =
     items (clearSelection s w) @
       [(setSelected True (setRotation (rotation (items w ! this))
          (setFlip (flipped (items w ! this))
            (fst (ItemBase_ctor env (m_zoom (items w ! this)) (lastZ w)
               (int_cast (m_horizontalSize (items w ! this)))
               (int_cast (xp (scenePos env (base (items w ! this)))
                  + m_horizontalSize (items w ! this) / 3))
               (int_cast (yp (scenePos env (base (items w ! this)))
                  + m_verticalSize (items w ! this) / 3)))))))
        \<lparr>base := (base (setSelected True (setRotation (rotation (items w ! this))
          (setFlip (flipped (items w ! this))
            (fst (ItemBase_ctor env (m_zoom (items w ! this)) (lastZ w)
               (int_cast (m_horizontalSize (items w ! this)))
               (int_cast (xp (scenePos env (base (items w ! this)))
                  + m_horizontalSize (items w ! this) / 3))
               (int_cast (yp (scenePos env (base (items w ! this)))
                  + m_verticalSize (items w ! this) / 3))))))))
           \<lparr>item_scene := Some s\<rparr>\<rparr>]"
  using assms
  by (simp add: duplicate_action_def duplicate_def Let_def Scene_addItem_def clearSelection_def)

lemma cleared_not_selected:
  assumes "i < length (items w)"
    and "scene (items (clearSelection s w) ! i) = Some s"
  shows "\<not> isSelected (items (clearSelection s w) ! i)"
  using assms
  by (auto simp: clearSelection_def setSelected_def scene_def isSelected_def split: if_splits)

text \<open>
  C5, as stated: the duplicate's position is the original's scene position offset by
  \<open>(_horizontalSize / 3, _verticalSize / 3)\<close>. The constructor takes the position as two
  \<^verbatim>\<open>int\<close>s: for an item of size 100 at (10, 10) the duplicate is at (43, 43), not at
  (10 + 100 / 3, 10 + 100 / 3).
\<close>

theorem duplicate_position_counterexample:
  "scene (items example_world ! 0) = Some 0 \<and>
   m_horizontalSize (items example_world ! 0) = 100 \<and>
   item_pos (base (items (duplicate_action example_env 0 example_world) ! 1)) = \<lparr>xp = 43, yp = 43\<rparr> \<and>
   item_pos (base (items (duplicate_action example_env 0 example_world) ! 1)) \<noteq>
     \<lparr>xp = xp (scenePos example_env (base (items example_world ! 0)))
             + m_horizontalSize (items example_world ! 0) / 3,
      yp = yp (scenePos example_env (base (items example_world ! 0)))
             + m_verticalSize (items example_world ! 0) / 3\<rparr>"
  by (simp add: duplicate_action_def example_world_eq example_item_eq example_env_def
      example_fresh_def ctor_eval clearSelection_def scene_def rotation_def flipped_def
      int_cast_def)

text \<open>
  C5, amended. When the duplicate action runs for an item attached to a scene, one item
  is added. Its horizontal size is the original's, truncated to an integer: the same
  size whenever the original's is a whole number, as it is in every state that mouse
  events reach from a constructed item. It has the original's rotation and flipped
  state. Its position is the original's scene position offset by
  \<open>(_horizontalSize / 3, _verticalSize / 3)\<close> with each coordinate truncated toward zero
  to an integer, so less than 1 away from the offset position in each coordinate. It
  is in the original's scene, and it is the only selected item of that scene.
\<close>

theorem duplicate_action_spec:
  fixes env :: Env and this :: nat and w :: World and s :: nat
  assumes "this < length (items w)" and "scene (items w ! this) = Some s"
  defines "it \<equiv> items w ! this"
  defines "w' \<equiv> duplicate_action env this w"
  defines "new \<equiv> items (duplicate_action env this w) ! length (items w)"
  shows "length (items w') = length (items w) + 1 \<and>
   m_horizontalSize new = of_int (int_cast (m_horizontalSize it)) \<and>
   (m_horizontalSize it \<in> \<int> \<longrightarrow> m_horizontalSize new = m_horizontalSize it) \<and>
   m_horizontalSize (fst (run env (ItemBase_ctor env zoomValue z size' x y) evs)) \<in> \<int> \<and>
   rotation new = rotation it \<and>
   flipped new = flipped it \<and>
   item_pos (base new) =
     \<lparr>xp = of_int (int_cast (xp (scenePos env (base it)) + m_horizontalSize it / 3)),
      yp = of_int (int_cast (yp (scenePos env (base it)) + m_verticalSize it / 3))\<rparr> \<and>
   \<bar>xp (item_pos (base new)) - (xp (scenePos env (base it)) + m_horizontalSize it / 3)\<bar> < 1 \<and>
   \<bar>yp (item_pos (base new)) - (yp (scenePos env (base it)) + m_verticalSize it / 3)\<bar> < 1 \<and>
   scene new = Some s \<and>
   isSelected new \<and>
   (\<forall>i < length (items w').
      scene (items w' ! i) = Some s \<and> isSelected (items w' ! i) \<longrightarrow> i = length (items w))"
proof -
  note items = duplicate_items [OF assms(2), of env]
  have len: "length (items w') = length (items w) + 1"
    unfolding w'_def items by simp
  have new: "new = (setSelected True (setRotation (rotation it)
          (setFlip (flipped it)
            (fst (ItemBase_ctor env (m_zoom it) (lastZ w)
               (int_cast (m_horizontalSize it))
               (int_cast (xp (scenePos env (base it)) + m_horizontalSize it / 3))
               (int_cast (yp (scenePos env (base it)) + m_verticalSize it / 3)))))))
        \<lparr>base := (base (setSelected True (setRotation (rotation it)
          (setFlip (flipped it)
            (fst (ItemBase_ctor env (m_zoom it) (lastZ w)
               (int_cast (m_horizontalSize it))
               (int_cast (xp (scenePos env (base it)) + m_horizontalSize it / 3))
               (int_cast (yp (scenePos env (base it)) + m_verticalSize it / 3))))))))
           \<lparr>item_scene := Some s\<rparr>\<rparr>"
    unfolding new_def items it_def
    using nth_append_length [of "items (clearSelection s w)"] by simp
  have h: "m_horizontalSize new = of_int (int_cast (m_horizontalSize it))"
    unfolding new by (simp add: ctor_eval)
  have hI: "m_horizontalSize it \<in> \<int> \<longrightarrow> m_horizontalSize new = m_horizontalSize it"
    unfolding h using int_cast_Ints by blast
  have reach: "m_horizontalSize (fst (run env (ItemBase_ctor env zoomValue z size' x y) evs)) \<in> \<int>"
    using integral_run [OF integral_ctor] .
  have rot: "rotation new = rotation it"
    unfolding new by (simp add: ctor_eval rotation_def)
  have fl: "flipped new = flipped it"
    unfolding new by (simp add: ctor_eval flipped_def)
  have pos: "item_pos (base new) =
     \<lparr>xp = of_int (int_cast (xp (scenePos env (base it)) + m_horizontalSize it / 3)),
      yp = of_int (int_cast (yp (scenePos env (base it)) + m_verticalSize it / 3))\<rparr>"
    unfolding new by (simp add: ctor_eval)
  have near: "\<bar>xp (item_pos (base new)) - (xp (scenePos env (base it)) + m_horizontalSize it / 3)\<bar> < 1 \<and>
   \<bar>yp (item_pos (base new)) - (yp (scenePos env (base it)) + m_verticalSize it / 3)\<bar> < 1"
    unfolding pos using int_cast_near by simp
  have sc: "scene new = Some s \<and> isSelected new"
    unfolding new by (simp add: ctor_eval scene_def isSelected_def)
  have only: "\<forall>i < length (items w').
      scene (items w' ! i) = Some s \<and> isSelected (items w' ! i) \<longrightarrow> i = length (items w)"
  proof (intro allI impI)
    fix i
    assume i: "i < length (items w')"
      and sel: "scene (items w' ! i) = Some s \<and> isSelected (items w' ! i)"
    show "i = length (items w)"
    proof (rule ccontr)
      assume "i \<noteq> length (items w)"
      with i len have lt: "i < length (items w)" by simp
      then have "items w' ! i = items (clearSelection s w) ! i"
        unfolding w'_def items by (simp add: nth_append)
      with sel cleared_not_selected [OF lt, of s] show False by simp
    qed
  qed
  from len h hI reach rot fl pos near sc only show ?thesis by blast
qed

theorem duplicate_action_spec_witness:
  "0 < length (items example_world) \<and>
   scene (items example_world ! 0) = Some 0 \<and>
   m_horizontalSize (items example_world ! 0) \<in> \<int> \<and>
   length (items (duplicate_action example_env 0 example_world)) = 2 \<and>
   m_horizontalSize (items (duplicate_action example_env 0 example_world) ! 1) = 100 \<and>
   rotation (items (duplicate_action example_env 0 example_world) ! 1) = 0 \<and>
   \<not> flipped (items (duplicate_action example_env 0 example_world) ! 1) \<and>
   item_pos (base (items (duplicate_action example_env 0 example_world) ! 1)) = \<lparr>xp = 43, yp = 43\<rparr> \<and>
   isSelected (items (duplicate_action example_env 0 example_world) ! 1) \<and>
   \<not> (scene (items (duplicate_action example_env 0 example_world) ! 0) = Some 0 \<and>
      isSelected (items (duplicate_action example_env 0 example_world) ! 0))"
proof -
  have h1: "0 < length (items example_world)"
    by (simp add: example_world_eq)
  have h2: "scene (items example_world ! 0) = Some 0"
    by (simp add: example_world_eq scene_def)
  have h3: "m_horizontalSize (items example_world ! 0) \<in> \<int>"
    by (simp add: example_world_eq example_item_eq)
  have v: "length (items example_world) = 1"
    "m_horizontalSize (items example_world ! 0) = 100"
    "m_verticalSize (items example_world ! 0) = 100"
    "rotation (items example_world ! 0) = 0"
    "\<not> flipped (items example_world ! 0)"
    "scenePos example_env (base (items example_world ! 0)) = \<lparr>xp = 10, yp = 10\<rparr>"
    by (simp_all add: example_world_eq example_item_eq example_env_def rotation_def flipped_def)
  have c: "int_cast (10 + 100 / 3) = 43"
    by (simp add: int_cast_def)
  show ?thesis
    using h1 h2 h3 c duplicate_action_spec [OF h1 h2, of example_env 1 0 100 10 10 "[]"]
    by (auto simp: v All_less_Suc)
qed

end
